theory Spec2Isabelle
  imports Main
begin

section \<open>Go string functions used by the program\<close>

text \<open>
  A Go string is a byte sequence; it is modelled as a \<^typ>\<open>string\<close> whose characters are
  the bytes.  Only the functions of packages \<^verbatim>\<open>strings\<close> and \<^verbatim>\<open>strconv\<close> that the
  program calls are modelled.
\<close>

fun HasPrefix :: "string \<Rightarrow> string \<Rightarrow> bool" where
  "HasPrefix s [] = True"
| "HasPrefix [] (p # ps) = False"
| "HasPrefix (c # cs) (p # ps) = (c = p \<and> HasPrefix cs ps)"

definition TrimPrefix :: "string \<Rightarrow> string \<Rightarrow> string" where
  "TrimPrefix s p = (if HasPrefix s p then drop (length p) s else s)"

fun Contains :: "string \<Rightarrow> string \<Rightarrow> bool" where
  "Contains [] sub = (sub = [])"
| "Contains (c # cs) sub = (HasPrefix (c # cs) sub \<or> Contains cs sub)"

text \<open>
  \<^verbatim>\<open>strings.ReplaceAll(s, old, new)\<close>: the non-overlapping occurrences of \<open>old\<close> are
  replaced from left to right.  Every call in the program has a constant, non-empty
  \<open>old\<close>; for an empty \<open>old\<close> (where Go inserts \<open>new\<close> around every rune) the model
  returns \<open>s\<close>.
\<close>

fun ReplaceAll :: "string \<Rightarrow> string \<Rightarrow> string \<Rightarrow> string" where
  "ReplaceAll [] old new = []"
| "ReplaceAll (c # cs) old new =
     (if old \<noteq> [] \<and> HasPrefix (c # cs) old
      then new @ ReplaceAll (drop (length old) (c # cs)) old new
      else c # ReplaceAll cs old new)"

text \<open>
  \<^verbatim>\<open>strings.TrimSpace\<close> removes the leading and trailing runes that satisfy
  \<^verbatim>\<open>unicode.IsSpace\<close>.  \<open>space_runes\<close> lists the UTF-8 encodings of these runes:
  the six ASCII ones, U+0085, U+00A0, U+1680, U+2000 to U+200A, U+2028, U+2029, U+202F,
  U+205F and U+3000.
\<close>

definition space_runes :: "string list" where
  "space_runes =
    [[CHR 0x09], [CHR 0x0A], [CHR 0x0B], [CHR 0x0C], [CHR 0x0D], [CHR 0x20],
     [CHR 0xC2, CHR 0x85], [CHR 0xC2, CHR 0xA0],
     [CHR 0xE1, CHR 0x9A, CHR 0x80],
     [CHR 0xE2, CHR 0x80, CHR 0x80], [CHR 0xE2, CHR 0x80, CHR 0x81],
     [CHR 0xE2, CHR 0x80, CHR 0x82], [CHR 0xE2, CHR 0x80, CHR 0x83],
     [CHR 0xE2, CHR 0x80, CHR 0x84], [CHR 0xE2, CHR 0x80, CHR 0x85],
     [CHR 0xE2, CHR 0x80, CHR 0x86], [CHR 0xE2, CHR 0x80, CHR 0x87],
     [CHR 0xE2, CHR 0x80, CHR 0x88], [CHR 0xE2, CHR 0x80, CHR 0x89],
     [CHR 0xE2, CHR 0x80, CHR 0x8A],
     [CHR 0xE2, CHR 0x80, CHR 0xA8], [CHR 0xE2, CHR 0x80, CHR 0xA9],
     [CHR 0xE2, CHR 0x80, CHR 0xAF], [CHR 0xE2, CHR 0x81, CHR 0x9F],
     [CHR 0xE3, CHR 0x80, CHR 0x80]]"

text \<open>The number of bytes of the rune of \<open>runes\<close> that \<open>s\<close> starts with, or 0.\<close>

fun runeLen :: "string list \<Rightarrow> string \<Rightarrow> nat" where
  "runeLen [] s = 0"
| "runeLen (r # rs) s = (if r \<noteq> [] \<and> HasPrefix s r then length r else runeLen rs s)"

function trimLeftRunes :: "string list \<Rightarrow> string \<Rightarrow> string" where
  "trimLeftRunes runes s =
     (if runeLen runes s = 0 then s else trimLeftRunes runes (drop (runeLen runes s) s))"
  by pat_completeness auto

lemma HasPrefix_length: "HasPrefix s p \<Longrightarrow> length p \<le> length s"
  by (induction s p rule: HasPrefix.induct) auto

lemma runeLen_le: "runeLen runes s \<le> length s"
  by (induction runes) (auto dest: HasPrefix_length)

termination trimLeftRunes
proof (relation "measure (\<lambda>(runes, s). length s)")
  fix runes :: "string list" and s :: string
  assume "runeLen runes s \<noteq> 0"
  moreover have "runeLen runes s \<le> length s" by (rule runeLen_le)
  ultimately show "((runes, drop (runeLen runes s) s), (runes, s)) \<in> measure (\<lambda>(runes, s). length s)"
    by simp
qed simp

definition TrimSpace :: "string \<Rightarrow> string" where
  "TrimSpace s = rev (trimLeftRunes (map rev space_runes) (rev (trimLeftRunes space_runes s)))"

text \<open>\<^verbatim>\<open>strconv.Itoa\<close>.\<close>

definition digit_chars :: "string" where
  "digit_chars = ''0123456789''"

function digits :: "nat \<Rightarrow> string" where
  "digits n = (if n < 10 then [digit_chars ! n] else digits (n div 10) @ [digit_chars ! (n mod 10)])"
  by pat_completeness auto
termination
  by (relation "measure id") auto

definition Itoa :: "int \<Rightarrow> string" where
  "Itoa i = (if i < 0 then CHR ''-'' # digits (nat (- i)) else digits (nat i))"

text \<open>
  \<^verbatim>\<open>strconv.Atoi\<close>: an optional sign and one or more decimal digits, in the range of the
  64-bit \<^verbatim>\<open>int\<close>.  Anything else is an error (\<^verbatim>\<open>ErrSyntax\<close>, or \<^verbatim>\<open>ErrRange\<close> for a
  well-formed numeral outside the range).
\<close>

datatype num_error = ErrSyntax | ErrRange

definition digitVal :: "char \<Rightarrow> int option" where
  "digitVal c = map_of
     [(CHR ''0'', 0), (CHR ''1'', 1), (CHR ''2'', 2), (CHR ''3'', 3), (CHR ''4'', 4),
      (CHR ''5'', 5), (CHR ''6'', 6), (CHR ''7'', 7), (CHR ''8'', 8), (CHR ''9'', 9)] c"

fun parseDigits :: "int \<Rightarrow> string \<Rightarrow> int option" where
  "parseDigits acc [] = Some acc"
| "parseDigits acc (c # cs) =
     (case digitVal c of None \<Rightarrow> None | Some d \<Rightarrow> parseDigits (acc * 10 + d) cs)"

definition Atoi :: "string \<Rightarrow> num_error + int" where
  "Atoi s =
     (let neg = HasPrefix s ''-'';
          ds = (if HasPrefix s ''-'' \<or> HasPrefix s ''+'' then drop 1 s else s)
      in if ds = [] then Inl ErrSyntax
         else case parseDigits 0 ds of
                None \<Rightarrow> Inl ErrSyntax
              | Some v \<Rightarrow>
                  (let n = (if neg then - v else v)
                   in if n < - (2 ^ 63) \<or> 2 ^ 63 \<le> n then Inl ErrRange else Inr n))"


fun Index :: "string \<Rightarrow> string \<Rightarrow> nat option" where
  "Index [] sub = (if sub = [] then Some 0 else None)"
| "Index (c # cs) sub =
     (if HasPrefix (c # cs) sub then Some 0 else map_option Suc (Index cs sub))"

text \<open>
  \<^verbatim>\<open>strings.ToLower\<close> on the ASCII letters.  (The program only asks whether the result
  contains \<^verbatim>\<open>language-go\<close>; no rune outside ASCII has one of these letters as its lower
  case, so the other runes do not matter there.)
\<close>

definition upper_chars :: string where
  "upper_chars = ''ABCDEFGHIJKLMNOPQRSTUVWXYZ''"

definition lower_chars :: string where
  "lower_chars = ''abcdefghijklmnopqrstuvwxyz''"

definition ToLower :: "string \<Rightarrow> string" where
  "ToLower s = map (\<lambda>c. case map_of (zip upper_chars lower_chars) c of Some l \<Rightarrow> l | None \<Rightarrow> c) s"

section \<open>Regular expressions of package regexp\<close>

text \<open>
  The patterns of the program are all compiled with the flags \<^verbatim>\<open>(?is)\<close>: literals match
  without regard to case and \<^verbatim>\<open>.\<close> matches every character.  \<open>regex\<close> has the operators
  these patterns use.  \<open>rmatch r s cs\<close> lists the ways in which \<open>r\<close> matches a prefix of
  \<open>s\<close>, as the remaining input with the captures, in the order of preference of a
  backtracking search (the leftmost-first rule of package \<^verbatim>\<open>regexp\<close>): a greedy operator
  lists the longer match first, a lazy one the shorter.

  The model matches bytes where Go matches runes.  In these patterns a class or \<^verbatim>\<open>.\<close> is
  always followed by an ASCII character, and an ASCII byte is never inside the encoding
  of another rune, so that the matches are the same.  Under \<^verbatim>\<open>(?i)\<close> the letters \<^verbatim>\<open>s\<close>
  and \<^verbatim>\<open>k\<close> also match U+017F and U+212A; \<open>foldAlts\<close> gives their encodings.
\<close>

datatype regex =
    Lit char
  | NotChar char
  | Space
  | AnyChar
  | Eps
  | Seq regex regex
  | Star regex
  | Lazy regex
  | Opt regex
  | Group nat regex

type_synonym caps = "(nat \<times> string) list"

definition foldAlts :: "char \<Rightarrow> string list" where
  "foldAlts c =
     [c] #
     (case map_of (zip lower_chars upper_chars) c of Some u \<Rightarrow> [[u]] | None \<Rightarrow> []) @
     (case map_of (zip upper_chars lower_chars) c of Some l \<Rightarrow> [[l]] | None \<Rightarrow> []) @
     (if c = CHR ''s'' \<or> c = CHR ''S'' then [[CHR 0xC5, CHR 0xBF]] else []) @
     (if c = CHR ''k'' \<or> c = CHR ''K'' then [[CHR 0xE2, CHR 0x84, CHR 0xAA]] else [])"

text \<open>The class \<^verbatim>\<open>\s\<close> of package \<^verbatim>\<open>regexp\<close> is \<^verbatim>\<open>[\t\n\f\r ]\<close>.\<close>

definition re_space :: "string" where
  "re_space = [CHR 0x09, CHR 0x0A, CHR 0x0C, CHR 0x0D, CHR 0x20]"

function rmatch :: "regex \<Rightarrow> string \<Rightarrow> caps \<Rightarrow> (string \<times> caps) list" where
  "rmatch (Lit c) s cs = map (\<lambda>a. (drop (length a) s, cs)) (filter (HasPrefix s) (foldAlts c))"
| "rmatch (NotChar c) s cs = (case s of [] \<Rightarrow> [] | x # xs \<Rightarrow> if x = c then [] else [(xs, cs)])"
| "rmatch Space s cs = (case s of [] \<Rightarrow> [] | x # xs \<Rightarrow> if x \<in> set re_space then [(xs, cs)] else [])"
| "rmatch AnyChar s cs = (case s of [] \<Rightarrow> [] | x # xs \<Rightarrow> [(xs, cs)])"
| "rmatch Eps s cs = [(s, cs)]"
| "rmatch (Seq a b) s cs = concat (map (\<lambda>p. rmatch b (fst p) (snd p)) (rmatch a s cs))"
| "rmatch (Star r) s cs =
     concat (map (\<lambda>p. if length (fst p) < length s then rmatch (Star r) (fst p) (snd p) else [])
                 (rmatch r s cs)) @ [(s, cs)]"
| "rmatch (Lazy r) s cs =
     (s, cs) #
     concat (map (\<lambda>p. if length (fst p) < length s then rmatch (Lazy r) (fst p) (snd p) else [])
                 (rmatch r s cs))"
| "rmatch (Opt r) s cs = rmatch r s cs @ [(s, cs)]"
| "rmatch (Group i r) s cs =
     map (\<lambda>p. (fst p, (i, take (length s - length (fst p)) s) # snd p)) (rmatch r s cs)"
  by pat_completeness auto
termination
  by (relation "inv_image (less_than <*lex*> less_than) (\<lambda>(r, s, cs). (size r, length s))") auto

text \<open>The equations for the two stars unfold for ever; they are applied by hand.\<close>

declare rmatch.simps(7,8) [simp del]


definition lits :: "string \<Rightarrow> regex" where
  "lits s = foldr (\<lambda>c r. Seq (Lit c) r) s Eps"

definition seqs :: "regex list \<Rightarrow> regex" where
  "seqs rs = foldr Seq rs Eps"

definition Plus :: "regex \<Rightarrow> regex" where
  "Plus r = Seq r (Star r)"

text \<open>
  The first match of \<open>re\<close> that starts at the head of \<open>s\<close>: the remaining input and the
  captures.
\<close>

definition matchHere :: "regex \<Rightarrow> string \<Rightarrow> (string \<times> caps) option" where
  "matchHere re s = (case rmatch re s [] of [] \<Rightarrow> None | p # ps \<Rightarrow> Some p)"

text \<open>The text of group \<open>i\<close>; a group that took no part in the match is empty.\<close>

definition group :: "caps \<Rightarrow> nat \<Rightarrow> string" where
  "group cs i = (case map_of cs i of None \<Rightarrow> [] | Some g \<Rightarrow> g)"

text \<open>
  \<^verbatim>\<open>FindStringSubmatch\<close>: the leftmost match, as the list of the whole match and the
  groups 1 to \<open>n\<close>; \<open>None\<close> is Go's \<^verbatim>\<open>nil\<close>.
\<close>

fun FindStringSubmatch :: "regex \<Rightarrow> nat \<Rightarrow> string \<Rightarrow> string list option" where
  "FindStringSubmatch re n [] =
     (case matchHere re [] of
        None \<Rightarrow> None
      | Some p \<Rightarrow> Some ([] # map (group (snd p)) [1..<Suc n]))"
| "FindStringSubmatch re n (c # cs) =
     (case matchHere re (c # cs) of
        None \<Rightarrow> FindStringSubmatch re n cs
      | Some p \<Rightarrow>
          Some (take (length (c # cs) - length (fst p)) (c # cs) # map (group (snd p)) [1..<Suc n]))"

text \<open>
  A replacement template of \<^verbatim>\<open>ReplaceAllString\<close>: literal text and group references
  \<^verbatim>\<open>$1\<close>, \<^verbatim>\<open>$2\<close>.
\<close>

datatype tmpl_item = TText string | TGroup nat

definition expand :: "tmpl_item list \<Rightarrow> caps \<Rightarrow> string" where
  "expand t cs = concat (map (\<lambda>i. case i of TText x \<Rightarrow> x | TGroup g \<Rightarrow> group cs g) t)"

text \<open>
  \<^verbatim>\<open>ReplaceAllString\<close> and \<^verbatim>\<open>ReplaceAllStringFunc\<close> replace the successive leftmost
  matches; the search goes on behind each match.  No pattern of the program matches the
  empty string; for an empty match the model copies one character and goes on.  The
  function given to \<^verbatim>\<open>ReplaceAllStringFunc\<close> may panic (\<open>None\<close>); it also receives the
  number of the match, which only selects the iteration order of a map (see below).
\<close>

function ReplaceAllString :: "regex \<Rightarrow> tmpl_item list \<Rightarrow> string \<Rightarrow> string" where
  "ReplaceAllString re t s =
     (case matchHere re s of
        Some p \<Rightarrow>
          (if length (fst p) < length s then expand t (snd p) @ ReplaceAllString re t (fst p)
           else expand t (snd p) @
                (case s of [] \<Rightarrow> [] | c # cs \<Rightarrow> c # ReplaceAllString re t cs))
      | None \<Rightarrow> (case s of [] \<Rightarrow> [] | c # cs \<Rightarrow> c # ReplaceAllString re t cs))"
  by pat_completeness auto
termination
  by (relation "measure (\<lambda>(re, t, s). length s)") auto

function ReplaceAllStringFunc ::
  "regex \<Rightarrow> (nat \<Rightarrow> string \<Rightarrow> string option) \<Rightarrow> nat \<Rightarrow> string \<Rightarrow> string option" where
  "ReplaceAllStringFunc re f k s =
     (case matchHere re s of
        Some p \<Rightarrow>
          (case f k (take (length s - length (fst p)) s) of
             None \<Rightarrow> None
           | Some r \<Rightarrow>
               (if length (fst p) < length s
                then map_option ((@) r) (ReplaceAllStringFunc re f (Suc k) (fst p))
                else (case s of [] \<Rightarrow> Some r
                      | c # cs \<Rightarrow> map_option (\<lambda>x. r @ c # x) (ReplaceAllStringFunc re f (Suc k) cs))))
      | None \<Rightarrow>
          (case s of [] \<Rightarrow> Some []
           | c # cs \<Rightarrow> map_option ((#) c) (ReplaceAllStringFunc re f k cs)))"
  by pat_completeness auto
termination
  by (relation "measure (\<lambda>(re, f, k, s). length s)") auto

section \<open>ConvertHTMLToMarkdown (internal/utils)\<close>

text \<open>
  \<^verbatim>\<open>unescapeCommonEntities\<close> and stage 6 of \<^verbatim>\<open>ConvertHTMLToMarkdown\<close> range over a Go map,
  whose iteration order is not fixed.  The order is an argument of the model: a list
  \<open>ord\<close> with \<open>iteration tbl ord\<close>, that is, the entries of the map in some order.
\<close>

definition iteration :: "(string \<times> string) list \<Rightarrow> (string \<times> string) list \<Rightarrow> bool" where
  "iteration tbl ord = (distinct ord \<and> set ord = set tbl)"

definition replaceEach :: "(string \<times> string) list \<Rightarrow> string \<Rightarrow> string" where
  "replaceEach ord s = foldl (\<lambda>x kv. ReplaceAll x (fst kv) (snd kv)) s ord"

definition repl :: "(string \<times> string) list" where
  "repl =
    [(''&quot;'', [CHR 0x22]), (''&#34;'', [CHR 0x22]),
     (''&apos;'', [CHR 0x27]), (''&#39;'', [CHR 0x27]),
     (''&amp;'', ''&''), (''&lt;'', ''<''), (''&gt;'', ''>''), (''&nbsp;'', '' '')]"

definition unescapeCommonEntities :: "(string \<times> string) list \<Rightarrow> string \<Rightarrow> string" where
  "unescapeCommonEntities ord s = replaceEach ord s"

lemma Index_bound: "Index s sub = Some i \<Longrightarrow> i + length sub \<le> length s"
proof (induction s arbitrary: i)
  case Nil
  then show ?case by (simp split: if_splits)
next
  case (Cons c cs)
  show ?case
  proof (cases "HasPrefix (c # cs) sub")
    case True
    with Cons.prems HasPrefix_length [OF True] show ?thesis by simp
  next
    case False
    with Cons.prems obtain j where "Index cs sub = Some j" "i = Suc j" by auto
    with Cons.IH [of j] show ?thesis by simp
  qed
qed

function stripAllTags :: "string \<Rightarrow> string" where
  "stripAllTags s =
     (case Index s ''<'' of
        None \<Rightarrow> s
      | Some start \<Rightarrow>
          (case Index (drop start s) ''>'' of
             None \<Rightarrow> s
           | Some end \<Rightarrow> stripAllTags (take start s @ drop (start + end + 1) s)))"
  by pat_completeness auto
termination
proof (relation "measure length")
  fix s :: string and start e :: nat
  assume a: "Index s ''<'' = Some start" and b: "Index (drop start s) ''>'' = Some e"
  from Index_bound [OF a] have "start < length s" by simp
  moreover from Index_bound [OF b] have "start + e + 1 \<le> length s" by simp
  ultimately show "(take start s @ drop (start + e + 1) s, s) \<in> measure length"
    by simp
qed simp

lemma ReplaceAll_length_le:
  "length new \<le> length old \<Longrightarrow> length (ReplaceAll s old new) \<le> length s"
proof (induction s old new rule: ReplaceAll.induct)
  case (1 old new)
  then show ?case by simp
next
  case (2 c cs old new)
  show ?case
  proof (cases "old \<noteq> [] \<and> HasPrefix (c # cs) old")
    case True
    then have "length old \<le> length (c # cs)" using HasPrefix_length [of "c # cs" old] by blast
    moreover from 2 True
    have "length (ReplaceAll (drop (length old) (c # cs)) old new) \<le> length (c # cs) - length old"
      by simp
    ultimately show ?thesis using True "2.prems" by simp
  next
    case False
    with 2 show ?thesis by auto
  qed
qed

lemma ReplaceAll_length_less:
  "Contains s old \<Longrightarrow> length new < length old \<Longrightarrow> length (ReplaceAll s old new) < length s"
proof (induction s old new rule: ReplaceAll.induct)
  case (1 old new)
  then show ?case by simp
next
  case (2 c cs old new)
  show ?case
  proof (cases "HasPrefix (c # cs) old")
    case True
    from "2.prems" have ne: "old \<noteq> []" by auto
    from True have "length old \<le> length (c # cs)" by (rule HasPrefix_length)
    moreover have "length (ReplaceAll (drop (length old) (c # cs)) old new)
        \<le> length (drop (length old) (c # cs))"
      using "2.prems" by (intro ReplaceAll_length_le) simp
    ultimately show ?thesis using True ne "2.prems" by simp
  next
    case False
    with 2 show ?thesis by auto
  qed
qed

text \<open>The loop \<^verbatim>\<open>for strings.Contains(html, "\n\n\n") { ... }\<close> of stage 9.\<close>

function collapseBlankLines :: "string \<Rightarrow> string" where
  "collapseBlankLines s =
     (if Contains s [CHR 0x0A, CHR 0x0A, CHR 0x0A]
      then collapseBlankLines (ReplaceAll s [CHR 0x0A, CHR 0x0A, CHR 0x0A] [CHR 0x0A, CHR 0x0A])
      else s)"
  by pat_completeness auto
termination
  by (relation "measure length") (auto intro: ReplaceAll_length_less)

text \<open>
  The patterns, in the order of the source:
  \<^verbatim>\<open>(?is)<pre>\s*<code([^>]*)>(.*?)</code>\s*</pre>\<close>,
  \<^verbatim>\<open>(?is)<hN[^>]*>(.*?)</hN>\<close> for N from 1 to 6,
  \<^verbatim>\<open>(?is)<a[^>]*\shref="([^"]+)"[^>]*>(.*?)</a>\<close>,
  \<^verbatim>\<open>(?is)<img[^>]*\salt="([^"]*)"[^>]*\ssrc="([^"]+)"[^>]*/?>\<close>,
  \<^verbatim>\<open>(?is)<img[^>]*\ssrc="([^"]+)"[^>]*\salt="([^"]*)"[^>]*/?>\<close>,
  \<^verbatim>\<open>(?is)<img[^>]*\ssrc="([^"]+)"[^>]*/?>\<close> and
  \<^verbatim>\<open>(?is)<code>(.*?)</code>\<close>.
\<close>

definition preCodeRe :: regex where
  "preCodeRe = seqs
     [lits ''<pre>'', Star Space, lits ''<code'', Group 1 (Star (NotChar CHR ''>'')), Lit CHR ''>'',
      Group 2 (Lazy AnyChar), lits ''</code>'', Star Space, lits ''</pre>'']"

definition headingRe :: "nat \<Rightarrow> regex" where
  "headingRe level = seqs
     [lits (''<h'' @ Itoa (int level)), Star (NotChar CHR ''>''), Lit CHR ''>'',
      Group 1 (Lazy AnyChar), lits (''</h'' @ Itoa (int level) @ ''>'')]"

definition anchorRe :: regex where
  "anchorRe = seqs
     [lits ''<a'', Star (NotChar CHR ''>''), Space, lits (''href='' @ [CHR 0x22]),
      Group 1 (Plus (NotChar (CHR 0x22))), Lit (CHR 0x22), Star (NotChar CHR ''>''), Lit CHR ''>'',
      Group 2 (Lazy AnyChar), lits ''</a>'']"

definition imgAltSrcRe :: regex where
  "imgAltSrcRe = seqs
     [lits ''<img'', Star (NotChar CHR ''>''), Space, lits (''alt='' @ [CHR 0x22]),
      Group 1 (Star (NotChar (CHR 0x22))), Lit (CHR 0x22), Star (NotChar CHR ''>''),
      Space, lits (''src='' @ [CHR 0x22]),
      Group 2 (Plus (NotChar (CHR 0x22))), Lit (CHR 0x22), Star (NotChar CHR ''>''),
      Opt (Lit CHR ''/''), Lit CHR ''>'']"

definition imgSrcAltRe :: regex where
  "imgSrcAltRe = seqs
     [lits ''<img'', Star (NotChar CHR ''>''), Space, lits (''src='' @ [CHR 0x22]),
      Group 1 (Plus (NotChar (CHR 0x22))), Lit (CHR 0x22), Star (NotChar CHR ''>''),
      Space, lits (''alt='' @ [CHR 0x22]),
      Group 2 (Star (NotChar (CHR 0x22))), Lit (CHR 0x22), Star (NotChar CHR ''>''),
      Opt (Lit CHR ''/''), Lit CHR ''>'']"

definition imgSrcOnlyRe :: regex where
  "imgSrcOnlyRe = seqs
     [lits ''<img'', Star (NotChar CHR ''>''), Space, lits (''src='' @ [CHR 0x22]),
      Group 1 (Plus (NotChar (CHR 0x22))), Lit (CHR 0x22), Star (NotChar CHR ''>''),
      Opt (Lit CHR ''/''), Lit CHR ''>'']"

definition inlineCodeRe :: regex where
  "inlineCodeRe = seqs [lits ''<code>'', Group 1 (Lazy AnyChar), lits ''</code>'']"

text \<open>
  The function literal of stage 1.  \<^verbatim>\<open>matches[1]\<close> panics when \<^verbatim>\<open>FindStringSubmatch\<close>
  returns \<^verbatim>\<open>nil\<close>; the panic is the result \<open>None\<close>.  \<open>eo\<close> gives the iteration order of
  each call of \<^verbatim>\<open>unescapeCommonEntities\<close>.
\<close>

definition preCodeFunc :: "(nat \<Rightarrow> (string \<times> string) list) \<Rightarrow> nat \<Rightarrow> string \<Rightarrow> string option" where
  "preCodeFunc eo k m =
     (case FindStringSubmatch preCodeRe 2 m of
        None \<Rightarrow> None
      | Some matches \<Rightarrow>
          (let attrs = matches ! 1;
               code = matches ! 2;
               lang = (if Contains (ToLower attrs) ''language-go'' then ''go'' else []);
               code = unescapeCommonEntities (eo (k + 2)) code
           in if lang \<noteq> []
              then Some (''```'' @ lang @ [CHR 0x0A] @ code @ [CHR 0x0A] @ ''```'' @ [CHR 0x0A, CHR 0x0A])
              else Some (''```'' @ [CHR 0x0A] @ code @ [CHR 0x0A] @ ''```'' @ [CHR 0x0A, CHR 0x0A])))"

definition replacements :: "(string \<times> string) list" where
  "replacements =
    [(''<p>'', [CHR 0x0A]), (''</p>'', [CHR 0x0A, CHR 0x0A]),
     (''<br>'', [CHR 0x0A]), (''<br/>'', [CHR 0x0A]),
     (''<strong>'', ''**''), (''</strong>'', ''**''), (''<b>'', ''**''), (''</b>'', ''**''),
     (''<em>'', ''*''), (''</em>'', ''*''), (''<i>'', ''*''), (''</i>'', ''*''),
     (''<ul>'', [CHR 0x0A]), (''</ul>'', [CHR 0x0A]), (''<ol>'', [CHR 0x0A]), (''</ol>'', [CHR 0x0A]),
     (''<li>'', ''- ''), (''</li>'', [CHR 0x0A]),
     (''<blockquote>'', ''> ''), (''</blockquote>'', [CHR 0x0A]),
     (''<hr>'', [CHR 0x0A] @ ''---'' @ [CHR 0x0A]), (''<hr/>'', [CHR 0x0A] @ ''---'' @ [CHR 0x0A])]"

text \<open>
  \<open>eo 0\<close> and \<open>eo 1\<close> are the iteration orders of the early and of the final call of
  \<^verbatim>\<open>unescapeCommonEntities\<close>, \<open>eo (k + 2)\<close> is that of the call for the code block
  number \<open>k\<close>, and \<open>ro\<close> is the iteration order of \<^verbatim>\<open>replacements\<close>.
\<close>

definition ConvertHTMLToMarkdown ::
  "(nat \<Rightarrow> (string \<times> string) list) \<Rightarrow> (string \<times> string) list \<Rightarrow> string \<Rightarrow> string option" where
  "ConvertHTMLToMarkdown eo ro html =
     (if TrimSpace html = [] then Some html
      else
        let html = ReplaceAll html [CHR 0x0D, CHR 0x0A] [CHR 0x0A];
            html = unescapeCommonEntities (eo 0) html
        in case ReplaceAllStringFunc preCodeRe (preCodeFunc eo) 0 html of
             None \<Rightarrow> None
           | Some html \<Rightarrow>
               (let html = foldl (\<lambda>h level.
                             ReplaceAllString (headingRe level)
                               [TText (replicate level CHR ''#'' @ '' ''), TGroup 1,
                                TText [CHR 0x0A, CHR 0x0A]] h)
                           html [1..<7];
                    html = ReplaceAllString anchorRe
                             [TText ''['', TGroup 2, TText ''](''  , TGroup 1, TText '')''] html;
                    html = ReplaceAllString imgAltSrcRe
                             [TText ''!['', TGroup 1, TText '']('', TGroup 2, TText '')''] html;
                    html = ReplaceAllString imgSrcAltRe
                             [TText ''!['', TGroup 2, TText '']('', TGroup 1, TText '')''] html;
                    html = ReplaceAllString imgSrcOnlyRe
                             [TText ''![]('', TGroup 1, TText '')''] html;
                    html = ReplaceAllString inlineCodeRe
                             [TText ''`'', TGroup 1, TText ''`''] html;
                    html = replaceEach ro html;
                    html = stripAllTags html;
                    html = ReplaceAll html ([CHR 0x0A] @ ''`'' @ [CHR 0x0A])
                             ([CHR 0x0A] @ ''```'' @ [CHR 0x0A]);
                    html = ReplaceAll html ([CHR 0x0A] @ ''`'' @ [CHR 0x0A, CHR 0x0A])
                             ([CHR 0x0A] @ ''```'' @ [CHR 0x0A, CHR 0x0A]);
                    html = unescapeCommonEntities (eo 1) html;
                    html = collapseBlankLines html
                in Some (TrimSpace html)))"

section \<open>Documents and selections (packages html, cascadia and goquery)\<close>

text \<open>
  The parser reads the page through goquery selections.  A document is the tree of its
  \<^verbatim>\<open>html\<close> element.  A node of a selection is a subtree together with its position: the
  frames of its ancestors, from the parent outwards, each with the tag and the
  attributes of the ancestor and the siblings to the left (the nearest first) and to the
  right of the path.  Two nodes of a document are the same node iff they are equal as
  such pairs.
\<close>

type_synonym attr = "string \<times> string"

datatype node = Element string "attr list" "node list" | TextNode string | Comment string

datatype frame = Frame (f_tag: string) (f_attrs: "attr list") (lefts: "node list") (rights: "node list")

type_synonym loc = "node \<times> frame list"

type_synonym selection = "loc list"

text \<open>The children of an element, each with its position.\<close>

fun child_locs :: "string \<Rightarrow> attr list \<Rightarrow> frame list \<Rightarrow> node list \<Rightarrow> node list \<Rightarrow> loc list" where
  "child_locs t a ctx ls [] = []"
| "child_locs t a ctx ls (k # ks) = (k, Frame t a ls ks # ctx) # child_locs t a ctx (k # ls) ks"

definition kids :: "loc \<Rightarrow> loc list" where
  "kids l = (case fst l of Element t a ks \<Rightarrow> child_locs t a (snd l) [] ks | _ \<Rightarrow> [])"

text \<open>The nodes of a subtree in document order, the root first.\<close>

fun subtree :: "frame list \<Rightarrow> node \<Rightarrow> loc list"
  and subtrees :: "string \<Rightarrow> attr list \<Rightarrow> frame list \<Rightarrow> node list \<Rightarrow> node list \<Rightarrow> loc list" where
  "subtree ctx (Element t a ks) = (Element t a ks, ctx) # subtrees t a ctx [] ks"
| "subtree ctx (TextNode x) = [(TextNode x, ctx)]"
| "subtree ctx (Comment x) = [(Comment x, ctx)]"
| "subtrees t a ctx ls [] = []"
| "subtrees t a ctx ls (k # ks) = subtree (Frame t a ls ks # ctx) k @ subtrees t a ctx (k # ls) ks"

definition isElement :: "node \<Rightarrow> bool" where
  "isElement n = (case n of Element t a ks \<Rightarrow> True | _ \<Rightarrow> False)"

text \<open>
  The selectors of the program: a selector is a group (separated by commas) of chains
  (descendant combinator, the outermost first) of compound selectors, each a list of
  simple selectors on one element: a tag, \<^verbatim>\<open>.class\<close>, \<^verbatim>\<open>[attr]\<close>, \<^verbatim>\<open>[attr='v']\<close> or
  \<^verbatim>\<open>[attr^='v']\<close>.
\<close>

datatype simple_sel =
    Tag string
  | Class string
  | HasAttr string
  | AttrEq string string
  | AttrPrefix string string

type_synonym selector = "simple_sel list list list"

text \<open>The words of a class attribute are separated by space, tab, CR, LF or FF.\<close>

fun words :: "string \<Rightarrow> string list" where
  "words [] = [[]]"
| "words (c # cs) =
     (if c \<in> set [CHR 0x20, CHR 0x09, CHR 0x0D, CHR 0x0A, CHR 0x0C] then [] # words cs
      else (case words cs of [] \<Rightarrow> [[c]] | w # ws \<Rightarrow> (c # w) # ws))"

fun simpleMatch :: "simple_sel \<Rightarrow> string \<Rightarrow> attr list \<Rightarrow> bool" where
  "simpleMatch (Tag t) tag as = (tag = t)"
| "simpleMatch (Class c) tag as = list_ex (\<lambda>kv. fst kv = ''class'' \<and> c \<in> set (words (snd kv))) as"
| "simpleMatch (HasAttr k) tag as = list_ex (\<lambda>kv. fst kv = k) as"
| "simpleMatch (AttrEq k v) tag as = list_ex (\<lambda>kv. fst kv = k \<and> snd kv = v) as"
| "simpleMatch (AttrPrefix k v) tag as =
     (v \<noteq> [] \<and> list_ex (\<lambda>kv. fst kv = k \<and> TrimSpace (snd kv) \<noteq> [] \<and> HasPrefix (snd kv) v) as)"

definition compoundMatch :: "simple_sel list \<Rightarrow> string \<Rightarrow> attr list \<Rightarrow> bool" where
  "compoundMatch c tag as = list_all (\<lambda>x. simpleMatch x tag as) c"

text \<open>
  The rest of a chain, the innermost compound first, against the ancestors: every
  compound needs an ancestor of its own, further out than the one before.
\<close>

fun ancMatch :: "simple_sel list list \<Rightarrow> frame list \<Rightarrow> bool" where
  "ancMatch [] fs = True"
| "ancMatch (c # cs) [] = False"
| "ancMatch (c # cs) (f # fs) =
     ((compoundMatch c (f_tag f) (f_attrs f) \<and> ancMatch cs fs) \<or> ancMatch (c # cs) fs)"

definition chainMatch :: "simple_sel list list \<Rightarrow> loc \<Rightarrow> bool" where
  "chainMatch ch l =
     (case fst l of
        Element t a ks \<Rightarrow>
          (case rev ch of [] \<Rightarrow> False | c # cs \<Rightarrow> compoundMatch c t a \<and> ancMatch cs (snd l))
      | _ \<Rightarrow> False)"

definition Match :: "selector \<Rightarrow> loc \<Rightarrow> bool" where
  "Match sel l = list_ex (\<lambda>ch. chainMatch ch l) sel"

text \<open>A list without the later copies of its elements (a selection has no node twice).\<close>

fun uniq :: "'a list \<Rightarrow> 'a list \<Rightarrow> 'a list" where
  "uniq seen [] = []"
| "uniq seen (x # xs) = (if x \<in> set seen then uniq seen xs else x # uniq (x # seen) xs)"

text \<open>
  \<^verbatim>\<open>Find\<close>: the matching nodes among the descendants of the nodes of the selection, in
  document order.
\<close>

definition Find :: "selection \<Rightarrow> selector \<Rightarrow> selection" where
  "Find s sel =
     uniq [] (concat (map (\<lambda>l. concat (map (\<lambda>c. filter (Match sel) (subtree (snd c) (fst c)))
                                          (filter (\<lambda>c. isElement (fst c)) (kids l)))) s))"

definition First :: "selection \<Rightarrow> selection" where
  "First s = take 1 s"

fun nodeText :: "node \<Rightarrow> string" where
  "nodeText (Element t a ks) = concat (map nodeText ks)"
| "nodeText (TextNode x) = x"
| "nodeText (Comment x) = []"

definition Text :: "selection \<Rightarrow> string" where
  "Text s = concat (map (\<lambda>l. nodeText (fst l)) s)"

text \<open>The value of the first attribute with the key, if any.\<close>

definition getAttr :: "node \<Rightarrow> string \<Rightarrow> string option" where
  "getAttr n k = (case n of Element t a ks \<Rightarrow> map_of a k | _ \<Rightarrow> None)"

definition AttrOr :: "selection \<Rightarrow> string \<Rightarrow> string \<Rightarrow> string" where
  "AttrOr s k d =
     (case s of [] \<Rightarrow> d | l # ls \<Rightarrow> (case getAttr (fst l) k of None \<Rightarrow> d | Some v \<Rightarrow> v))"

text \<open>The elements among the following siblings of the nodes that match the selector.\<close>

definition nextAll :: "loc \<Rightarrow> loc list" where
  "nextAll l =
     (case snd l of
        [] \<Rightarrow> []
      | f # ctx \<Rightarrow> child_locs (f_tag f) (f_attrs f) ctx (fst l # lefts f) (rights f))"

definition NextAllFiltered :: "selection \<Rightarrow> selector \<Rightarrow> selection" where
  "NextAllFiltered s sel =
     filter (Match sel)
       (uniq [] (concat (map (\<lambda>l. filter (\<lambda>c. isElement (fst c)) (nextAll l)) s)))"

text \<open>
  \<^verbatim>\<open>Each\<close> calls the function with the index and the selection of each node in turn;
  the effect of the function on its captured variables is a state transformer.
\<close>

definition Each :: "selection \<Rightarrow> (nat \<Rightarrow> selection \<Rightarrow> 'a \<Rightarrow> 'a) \<Rightarrow> 'a \<Rightarrow> 'a" where
  "Each s f x = foldl (\<lambda>y il. f (fst il) [snd il] y) x (enumerate 0 s)"

section \<open>The data model (internal/models)\<close>

record Example =
  Name :: string
  Code :: string
  Output :: string

record Function =
  Name :: string
  Description :: string
  Signature :: string
  Receiver :: string
  Deprecated :: string
  AddedIn :: string
  Examples :: "Example list"

record Type =
  Name :: string
  Description :: string
  Definition :: string
  Kind :: string
  Deprecated :: string
  AddedIn :: string
  Methods :: "Function list"
  Examples :: "Example list"

record Variable =
  Name :: string
  Type :: string
  Description :: string

record Constant =
  Name :: string
  Type :: string
  Value :: string
  Description :: string

text \<open>\<open>ScrapedAt\<close> is a time; the model counts it in some unit from the zero time.\<close>

record Package =
  Name :: string
  Description :: string
  Module :: string
  Version :: string
  IsLatest :: bool
  Published :: string
  Synopsis :: string
  License :: string
  LicenseURL :: string
  Repository :: string
  ImportPath :: string
  ScrapedAt :: nat
  Readme :: string
  ProcessedReadme :: string
  Imports :: int
  ImportedBy :: int
  Functions :: "Function list"
  Types :: "Type list"
  Variables :: "Variable list"
  Constants :: "Constant list"
  Examples :: "Example list"

text \<open>The zero value \<^verbatim>\<open>&models.Package{}\<close>.\<close>

definition emptyPackage :: Package where
  "emptyPackage =
     \<lparr>Package.Name = [], Description = [], Module = [], Version = [], IsLatest = False,
      Published = [], Synopsis = [], License = [], LicenseURL = [], Repository = [],
      ImportPath = [], ScrapedAt = 0, Readme = [], ProcessedReadme = [], Imports = 0,
      ImportedBy = 0, Functions = [], Types = [], Variables = [], Constants = [],
      Examples = []\<rparr>"

section \<open>The environment\<close>

text \<open>
  What the program takes from outside: the collector's \<^verbatim>\<open>Visit\<close> and \<^verbatim>\<open>Wait\<close>, which
  either fail or hand the \<^verbatim>\<open>html\<close> elements of the response to the \<^verbatim>\<open>OnHTML\<close> callback
  (none when the response is not an HTML page); the serialisation \<^verbatim>\<open>Html()\<close> of the
  content of a node, which may fail; the iteration orders of the two maps of
  \<^verbatim>\<open>ConvertHTMLToMarkdown\<close>; and the clock.
\<close>

datatype visit = VisitError string | Visited "node list"

record env =
  Visit :: "string \<Rightarrow> visit"
  Html :: "node \<Rightarrow> string option"
  entityOrder :: "nat \<Rightarrow> (string \<times> string) list"
  replacementOrder :: "(string \<times> string) list"
  Now :: nat

text \<open>
  A call returns, panics, or blocks for ever.  The errors are the values that the
  program builds with \<^verbatim>\<open>fmt.Errorf\<close>, with the text they wrap.
\<close>

datatype 'a outcome = Returns 'a | Panics | Blocks

datatype error =
    EmptyImportPath
  | VisitFailed string string
  | ParseFailed error
  | NoPackageData string
  | NoImportPaths
  | ScrapeFailed string error

section \<open>ParsePackagePage (pkg/parser)\<close>

definition setName :: "selection \<Rightarrow> Package \<Rightarrow> Package" where
  "setName doc pkg =
     (let el = Find doc [[[Tag ''h1'', Class ''UnitHeader-titleHeading'']]]
      in if length el > 0 then pkg\<lparr>Package.Name := TrimSpace (Text el)\<rparr> else pkg)"

definition setImportPath :: "selection \<Rightarrow> Package \<Rightarrow> Package" where
  "setImportPath doc pkg =
     (let el = Find doc [[[Class ''UnitHeader-breadcrumbCurrent'']]]
      in if length el > 0
         then (let text = TrimSpace (Text el)
               in if text \<noteq> [] then pkg\<lparr>ImportPath := text\<rparr> else pkg)
         else pkg)"

definition setVersion :: "selection \<Rightarrow> Package \<Rightarrow> Package" where
  "setVersion doc pkg =
     (let el = Find doc [[[Tag ''a'', AttrPrefix ''aria-label'' ''Version: '']]]
      in if length el > 0
         then (let ariaLabel = AttrOr el ''aria-label'' []
               in if HasPrefix ariaLabel ''Version: ''
                  then pkg\<lparr>Version := TrimPrefix ariaLabel ''Version: ''\<rparr> else pkg)
         else pkg)"

definition latestBadge :: selector where
  "latestBadge =
     [[[Class ''DetailsHeader-badge--latest'']], [[Class ''UnitHeader-badge--latest'']],
      [[Class ''DetailsHeader-span--latest'']]]"

definition setIsLatest :: "selection \<Rightarrow> Package \<Rightarrow> Package" where
  "setIsLatest doc pkg =
     (if length (Find doc latestBadge) > 0
      then (if Contains (Text (Find doc latestBadge)) ''Latest''
            then pkg\<lparr>IsLatest := True\<rparr> else pkg)
      else pkg)"

definition setPublished :: "selection \<Rightarrow> Package \<Rightarrow> Package" where
  "setPublished doc pkg =
     (let el = Find doc [[[AttrEq ''data-test-id'' ''UnitHeader-commitTime'']]]
      in if length el > 0
         then (let text = TrimSpace (Text el)
               in if HasPrefix text ''Published: ''
                  then pkg\<lparr>Published := TrimSpace (TrimPrefix text ''Published: '')\<rparr> else pkg)
         else pkg)"

text \<open>The callback of \<^verbatim>\<open>e.ForEach\<close> for the licence links.\<close>

definition licenseBody :: "nat \<Rightarrow> selection \<Rightarrow> Package \<Rightarrow> Package" where
  "licenseBody i el pkg =
     (let licenseText = TrimSpace (Text el);
          licenseHref = AttrOr el ''href'' [];
          licenseText = (if licenseText = [] then TrimSpace (Text el) else licenseText)
      in if licenseText \<noteq> []
         then (let pkg = pkg\<lparr>License := licenseText\<rparr>
               in if licenseHref \<noteq> []
                  then (if HasPrefix licenseHref ''/''
                        then pkg\<lparr>LicenseURL := ''https://pkg.go.dev'' @ licenseHref\<rparr>
                        else pkg\<lparr>LicenseURL := licenseHref\<rparr>)
                  else pkg)
         else pkg)"

definition setLicense :: "selection \<Rightarrow> Package \<Rightarrow> Package" where
  "setLicense doc pkg =
     Each (Find doc [[[Tag ''a'', AttrEq ''data-test-id'' ''UnitHeader-license'']],
                     [[AttrEq ''data-test-id'' ''UnitHeader-licenses''], [Tag ''a'']],
                     [[Class ''UnitHeader-license''], [Tag ''a'']]])
          licenseBody pkg"

definition setImports :: "selection \<Rightarrow> Package \<Rightarrow> Package" where
  "setImports doc pkg =
     (let el = Find doc [[[AttrEq ''data-test-id'' ''UnitHeader-imports''], [Tag ''a'']]]
      in if length el > 0
         then (let aria = AttrOr el ''aria-label'' [];
                   value = aria;
                   value = (if value = [] then TrimSpace (Text el) else value)
               in if HasPrefix value ''Imports: ''
                  then (let countStr = TrimSpace (TrimPrefix value ''Imports: '');
                            countStr = ReplaceAll countStr '','' []
                        in case Atoi countStr of
                             Inr num \<Rightarrow> pkg\<lparr>Imports := num\<rparr>
                           | Inl err \<Rightarrow> pkg)
                  else pkg)
         else pkg)"

text \<open>The loop over \<^verbatim>\<open>prefixes\<close>: the first prefix that the value has ends the loop.\<close>

fun importedByLoop :: "string list \<Rightarrow> string \<Rightarrow> Package \<Rightarrow> Package" where
  "importedByLoop [] value pkg = pkg"
| "importedByLoop (pfx # pfxs) value pkg =
     (if HasPrefix value pfx
      then (let countStr = TrimSpace (TrimPrefix value pfx);
                countStr = ReplaceAll countStr '','' []
            in case Atoi countStr of
                 Inr num \<Rightarrow> pkg\<lparr>ImportedBy := num\<rparr>
               | Inl err \<Rightarrow> pkg)
      else importedByLoop pfxs value pkg)"

definition setImportedBy :: "selection \<Rightarrow> Package \<Rightarrow> Package" where
  "setImportedBy doc pkg =
     (let el = Find doc [[[AttrEq ''data-test-id'' ''UnitHeader-importedby''], [Tag ''a'']]]
      in if length el > 0
         then (let aria = AttrOr el ''aria-label'' [];
                   value = aria;
                   value = (if value = [] then TrimSpace (Text el) else value)
               in importedByLoop [''Imported By: '', ''Imported by: ''] value pkg)
         else pkg)"

definition setRepository :: "selection \<Rightarrow> Package \<Rightarrow> Package" where
  "setRepository doc pkg =
     Each (Find doc [[[Class ''UnitMeta-repo''], [Tag ''a'']]])
          (\<lambda>i el pkg. pkg\<lparr>Repository := TrimSpace (AttrOr el ''href'' [])\<rparr>) pkg"

definition setDescription :: "selection \<Rightarrow> Package \<Rightarrow> Package" where
  "setDescription doc pkg =
     (let el = Find doc [[[Class ''Documentation-overview''], [Tag ''p'']]]
      in if length el > 0 then pkg\<lparr>Package.Description := TrimSpace (Text (First el))\<rparr> else pkg)"

text \<open>
  The README: \<^verbatim>\<open>el.Html()\<close> is the serialisation of the content of the first node.  A
  panic of \<^verbatim>\<open>ConvertHTMLToMarkdown\<close> is the result \<open>None\<close>.
\<close>

definition setReadme :: "env \<Rightarrow> selection \<Rightarrow> Package \<Rightarrow> Package option" where
  "setReadme ev doc pkg =
     (let el = Find doc [[[Class ''UnitReadme-content''], [Class ''Overview-readmeContent'']]]
      in if length el > 0
         then (case Html ev (fst (hd el)) of
                 None \<Rightarrow> Some pkg
               | Some html \<Rightarrow>
                   (case ConvertHTMLToMarkdown (entityOrder ev) (replacementOrder ev) html of
                      None \<Rightarrow> None
                    | Some md \<Rightarrow> Some (pkg\<lparr>Readme := html, ProcessedReadme := md\<rparr>)))
         else Some pkg)"

text \<open>
  The function literals of the four \<^verbatim>\<open>Each\<close> loops over the declaration blocks.  Each
  takes the index \<open>i\<close> and the selection \<open>s\<close> of one block and appends to a sequence of
  the package, or returns early.
\<close>

definition constantsBody :: "nat \<Rightarrow> selection \<Rightarrow> Package \<Rightarrow> Package" where
  "constantsBody i s pkg =
     (let pre = First (Find s [[[Tag ''pre'']]]);
          code = TrimSpace (Text pre)
      in if code = [] then pkg
         else
           let name = TrimSpace (AttrOr (First (Find pre [[[Tag ''span'', HasAttr ''id'',
                                                              AttrEq ''data-kind'' ''constant'']]]))
                                   ''id'' (''const-block-'' @ Itoa (int i + 1)));
               descSel = First (NextAllFiltered s [[[Tag ''p'']]]);
               desc = TrimSpace (Text descSel);
               constant = \<lparr>Constant.Name = name, Type = [], Value = code, Description = desc\<rparr>
           in pkg\<lparr>Constants := Constants pkg @ [constant]\<rparr>)"

definition variablesBody :: "nat \<Rightarrow> selection \<Rightarrow> Package \<Rightarrow> Package" where
  "variablesBody i s pkg =
     (let pre = First (Find s [[[Tag ''pre'']]]);
          code = TrimSpace (Text pre)
      in if code = [] then pkg
         else
           let name = TrimSpace (AttrOr (First (Find pre [[[Tag ''span'', HasAttr ''id'',
                                                              AttrEq ''data-kind'' ''variable'']]]))
                                   ''id'' (''var-block-'' @ Itoa (int i + 1)));
               descSel = First (NextAllFiltered s [[[Tag ''p'']]]);
               desc = TrimSpace (Text descSel);
               variable = \<lparr>Variable.Name = name, Type = code, Description = desc\<rparr>
           in pkg\<lparr>Variables := Variables pkg @ [variable]\<rparr>)"

definition declPre :: selector where
  "declPre = [[[Class ''Documentation-declaration''], [Tag ''pre'']]]"

text \<open>The "added in" version of a block: the version token, or else the whole text.\<close>

definition sinceVersion :: "selection \<Rightarrow> string" where
  "sinceVersion s =
     (let addedIn = TrimSpace (Text (First (Find s [[[Class ''Documentation-sinceVersionVersion'']]])))
      in if addedIn = []
         then TrimSpace (Text (First (Find s [[[Class ''Documentation-sinceVersion'']]])))
         else addedIn)"

definition deprecatedTag :: "selection \<Rightarrow> string" where
  "deprecatedTag s =
     (if length (Find s [[[Class ''Documentation-deprecatedTag'']]]) > 0 then ''deprecated'' else [])"

definition functionsBody :: "nat \<Rightarrow> selection \<Rightarrow> Package \<Rightarrow> Package" where
  "functionsBody i s pkg =
     (let header = First (Find s [[[Tag ''h4'']]]);
          id = AttrOr header ''id'' [];
          sig = TrimSpace (Text (First (Find s declPre)))
      in if sig \<noteq> []
         then
           let addedIn = sinceVersion s;
               desc = TrimSpace (Text (First (Find s [[[Tag ''p'']]])));
               deprecated = deprecatedTag s;
               function = \<lparr>Function.Name = id, Description = desc, Signature = sig, Receiver = [],
                            Deprecated = deprecated, AddedIn = addedIn, Examples = []\<rparr>
           in pkg\<lparr>Functions := Functions pkg @ [function]\<rparr>
         else pkg)"

definition methodsBody :: "nat \<Rightarrow> selection \<Rightarrow> Type \<Rightarrow> Type" where
  "methodsBody j methodSel typeInfo =
     (let mh = First (Find methodSel [[[Tag ''h4'']]]);
          mName = AttrOr mh ''id'' [];
          mName = (if mName = [] then TrimSpace (Text mh) else mName);
          mSig = TrimSpace (Text (First (Find methodSel declPre)));
          mDesc = TrimSpace (Text (First (Find methodSel [[[Tag ''p'']]])));
          mAddedIn = sinceVersion methodSel;
          mDeprecated = deprecatedTag methodSel
      in if mSig \<noteq> [] \<or> mName \<noteq> []
         then
           let method = \<lparr>Function.Name = mName, Description = mDesc, Signature = mSig,
                          Receiver = [], Deprecated = mDeprecated, AddedIn = mAddedIn,
                          Examples = []\<rparr>
           in typeInfo\<lparr>Methods := Methods typeInfo @ [method]\<rparr>
         else typeInfo)"

definition typesBody :: "nat \<Rightarrow> selection \<Rightarrow> Package \<Rightarrow> Package" where
  "typesBody i s pkg =
     (let header = First (Find s [[[Tag ''h4'']]]);
          id = AttrOr header ''id'' [];
          def = TrimSpace (Text (First (Find s declPre)))
      in if id \<noteq> [] \<and> def \<noteq> []
         then
           let addedIn = sinceVersion s;
               desc = TrimSpace (Text (First (Find s [[[Tag ''p'']]])));
               deprecated = deprecatedTag s;
               typeInfo = \<lparr>Type.Name = id, Description = desc, Definition = def, Kind = ''type'',
                            Deprecated = deprecated, AddedIn = addedIn, Methods = [],
                            Examples = []\<rparr>;
               typeInfo = Each (Find s [[[Class ''Documentation-typeMethod'']]]) methodsBody typeInfo
           in pkg\<lparr>Types := Types pkg @ [typeInfo]\<rparr>
         else pkg)"

definition constantBlocks :: selector where
  "constantBlocks = [[[Class ''Documentation-constants''], [Class ''Documentation-declaration'']]]"

definition variableBlocks :: selector where
  "variableBlocks = [[[Class ''Documentation-variables''], [Class ''Documentation-declaration'']]]"

definition functionBlocks :: selector where
  "functionBlocks = [[[Class ''Documentation-functions''], [Class ''Documentation-function'']]]"

definition typeBlocks :: selector where
  "typeBlocks = [[[Class ''Documentation-types''], [Class ''Documentation-type'']]]"

text \<open>
  \<^verbatim>\<open>ParsePackagePage\<close>: \<open>e\<close> is the \<^verbatim>\<open>html\<close> element that the collector hands to the
  callback.  The function ends with \<^verbatim>\<open>return pkg, nil\<close>; it has no other \<^verbatim>\<open>return\<close>.
\<close>

definition ParsePackagePage :: "env \<Rightarrow> node \<Rightarrow> (error + Package) outcome" where
  "ParsePackagePage ev e =
     (let doc = [(e, [])];
          pkg = emptyPackage;
          pkg = setName doc pkg;
          pkg = setImportPath doc pkg;
          pkg = setVersion doc pkg;
          pkg = setIsLatest doc pkg;
          pkg = setPublished doc pkg;
          pkg = setLicense doc pkg;
          pkg = setImports doc pkg;
          pkg = setImportedBy doc pkg;
          pkg = setRepository doc pkg;
          pkg = setDescription doc pkg
      in case setReadme ev doc pkg of
           None \<Rightarrow> Panics
         | Some pkg \<Rightarrow>
             (let pkg = Each (Find doc constantBlocks) constantsBody pkg;
                  pkg = Each (Find doc variableBlocks) variablesBody pkg;
                  pkg = Each (Find doc functionBlocks) functionsBody pkg;
                  pkg = Each (Find doc typeBlocks) typesBody pkg
              in Returns (Inr pkg)))"

section \<open>The scraper (pkg/scraper)\<close>

record ScrapingConfig =
  MaxConcurrency :: int
  Delay :: nat
  Timeout :: nat
  UserAgent :: string
  Debug :: bool
  TestMode :: bool

text \<open>
  The statistics.  \<^verbatim>\<open>RequestsMade\<close> and \<^verbatim>\<open>Errors\<close> are counted by callbacks that the
  collector runs inside \<^verbatim>\<open>Visit\<close>; the functions below only count \<^verbatim>\<open>PackagesScraped\<close>.
\<close>

record ScrapingStats =
  PackagesScraped :: int
  RequestsMade :: int
  Errors :: int
  StartTime :: nat

definition mockPackage :: "env \<Rightarrow> string \<Rightarrow> Package" where
  "mockPackage ev importPath =
     \<lparr>Package.Name = ''cobra'',
      Description = ''A Commander providing a simple interface to create powerful modern CLI interfaces'',
      Module = ''github.com/spf13/cobra'',
      Version = ''v1.9.1'',
      IsLatest = False,
      Published = [],
      Synopsis = ''Commander library'',
      License = ''Apache-2.0'',
      LicenseURL = [],
      Repository = ''https://github.com/spf13/cobra'',
      ImportPath = importPath,
      ScrapedAt = Now ev,
      Readme = [],
      ProcessedReadme = [],
      Imports = 0,
      ImportedBy = 0,
      Functions = [\<lparr>Function.Name = ''Execute'',
                     Description = ''Executes the root command and all subcommands.'',
                     Signature = ''func Execute() error'',
                     Receiver = [], Deprecated = [], AddedIn = [], Examples = []\<rparr>],
      Types = [], Variables = [], Constants = [], Examples = []\<rparr>"

text \<open>
  The callback of \<^verbatim>\<open>c.OnHTML("html", ...)\<close>, on the variables \<^verbatim>\<open>pkg\<close>, \<^verbatim>\<open>rawHTML\<close> and
  \<^verbatim>\<open>scrapeErr\<close> that it captures (\<open>None\<close> is \<^verbatim>\<open>nil\<close>).  \<^verbatim>\<open>rawHTML, _ = e.DOM.Html()\<close>
  drops the error; the string is then empty.
\<close>

record callback_vars =
  pkg :: "Package option"
  rawHTML :: string
  scrapeErr :: "error option"

definition onHTML :: "env \<Rightarrow> string \<Rightarrow> node \<Rightarrow> callback_vars \<Rightarrow> callback_vars outcome" where
  "onHTML ev importPath e vs =
     (let vs = vs\<lparr>rawHTML := (case Html ev e of None \<Rightarrow> [] | Some h \<Rightarrow> h)\<rparr>
      in case ParsePackagePage ev e of
           Panics \<Rightarrow> Panics
         | Blocks \<Rightarrow> Blocks
         | Returns (Inl err) \<Rightarrow> Returns (vs\<lparr>pkg := None, scrapeErr := Some (ParseFailed err)\<rparr>)
         | Returns (Inr p) \<Rightarrow>
             Returns (vs\<lparr>pkg := Some (p\<lparr>ImportPath := importPath, ScrapedAt := Now ev\<rparr>)\<rparr>))"

fun runCallbacks :: "env \<Rightarrow> string \<Rightarrow> node list \<Rightarrow> callback_vars \<Rightarrow> callback_vars outcome" where
  "runCallbacks ev importPath [] vs = Returns vs"
| "runCallbacks ev importPath (e # es) vs =
     (case onHTML ev importPath e vs of
        Returns vs' \<Rightarrow> runCallbacks ev importPath es vs'
      | Panics \<Rightarrow> Panics
      | Blocks \<Rightarrow> Blocks)"

text \<open>
  \<^verbatim>\<open>ScrapePackageWithRaw\<close>, with the statistics before and after.  The context argument
  is not used by the function.
\<close>

definition ScrapePackageWithRaw ::
  "ScrapingConfig \<Rightarrow> env \<Rightarrow> string \<Rightarrow> ScrapingStats \<Rightarrow>
     ((error + Package \<times> string) \<times> ScrapingStats) outcome" where
  "ScrapePackageWithRaw cfg ev importPath st =
     (if TrimSpace importPath = [] then Returns (Inl EmptyImportPath, st)
      else if TestMode cfg
      then (let mockPkg = mockPackage ev importPath;
                mockHTML = ''<!DOCTYPE html><html><head><title>'' @ Package.Name mockPkg @
                           '' package - Go Packages</title></head><body><h1>'' @
                           Package.Name mockPkg @ ''</h1><p>'' @ Package.Description mockPkg @
                           ''</p><p>Mock HTML content for testing</p></body></html>''
            in Returns (Inr (mockPkg, mockHTML), st))
      else
        let url = ''https://pkg.go.dev/'' @ TrimSpace importPath
        in case Visit ev url of
             VisitError err \<Rightarrow> Returns (Inl (VisitFailed url err), st)
           | Visited es \<Rightarrow>
               (case runCallbacks ev importPath es \<lparr>pkg = None, rawHTML = [], scrapeErr = None\<rparr> of
                  Panics \<Rightarrow> Panics
                | Blocks \<Rightarrow> Blocks
                | Returns vs \<Rightarrow>
                    (case scrapeErr vs of
                       Some err \<Rightarrow> Returns (Inl err, st)
                     | None \<Rightarrow>
                         (case pkg vs of
                            None \<Rightarrow> Returns (Inl (NoPackageData importPath), st)
                          | Some p \<Rightarrow>
                              Returns (Inr (p, rawHTML vs),
                                       st\<lparr>PackagesScraped := PackagesScraped st + 1\<rparr>)))))"

definition ScrapePackage ::
  "ScrapingConfig \<Rightarrow> env \<Rightarrow> string \<Rightarrow> ScrapingStats \<Rightarrow> ((error + Package) \<times> ScrapingStats) outcome" where
  "ScrapePackage cfg ev importPath st =
     (case ScrapePackageWithRaw cfg ev importPath st of
        Returns (r, st') \<Rightarrow> Returns (map_sum id fst r, st')
      | Panics \<Rightarrow> Panics
      | Blocks \<Rightarrow> Blocks)"

text \<open>
  The sequential branch of \<^verbatim>\<open>ScrapePackages\<close> (test mode).  The \<^verbatim>\<open>break\<close> in the
  \<^verbatim>\<open>select\<close> on \<^verbatim>\<open>ctx.Done()\<close> leaves the \<^verbatim>\<open>select\<close> only, not the loop, so that
  cancellation has no effect on this branch.
\<close>

fun seqLoop ::
  "ScrapingConfig \<Rightarrow> env \<Rightarrow> string list \<Rightarrow> Package list \<Rightarrow> error list \<Rightarrow> ScrapingStats \<Rightarrow>
     ((Package list \<times> error list) \<times> ScrapingStats) outcome" where
  "seqLoop cfg ev [] packages errors st = Returns ((packages, errors), st)"
| "seqLoop cfg ev (importPath # rest) packages errors st =
     (case ScrapePackage cfg ev importPath st of
        Returns (Inl err, st') \<Rightarrow>
          seqLoop cfg ev rest packages (errors @ [ScrapeFailed importPath err]) st'
      | Returns (Inr p, st') \<Rightarrow> seqLoop cfg ev rest (packages @ [p]) errors st'
      | Panics \<Rightarrow> Panics
      | Blocks \<Rightarrow> Blocks)"

text \<open>
  The parallel branch starts one goroutine per import path.  What the scheduler and the
  context decide is an argument of the model: \<open>order\<close> lists the indices of the
  goroutines in the order in which they finish (a permutation of the indices), and
  \<open>cancelled i\<close> says that goroutine \<open>i\<close> finds the context done in one of its two
  \<^verbatim>\<open>select\<close> statements and returns without scraping.  The two slices are appended to
  under their mutexes, in the order of \<open>order\<close>.
\<close>

record schedule =
  order :: "nat list"
  cancelled :: "nat \<Rightarrow> bool"

definition schedule_ok :: "nat \<Rightarrow> schedule \<Rightarrow> bool" where
  "schedule_ok n sched = (distinct (order sched) \<and> set (order sched) = set [0..<n])"

fun parLoop ::
  "ScrapingConfig \<Rightarrow> env \<Rightarrow> schedule \<Rightarrow> string list \<Rightarrow> nat list \<Rightarrow> Package list \<Rightarrow> error list \<Rightarrow>
     ScrapingStats \<Rightarrow> ((Package list \<times> error list) \<times> ScrapingStats) outcome" where
  "parLoop cfg ev sched importPaths [] packages errors st = Returns ((packages, errors), st)"
| "parLoop cfg ev sched importPaths (i # rest) packages errors st =
     (if i < length importPaths \<and> \<not> cancelled sched i
      then (case ScrapePackage cfg ev (importPaths ! i) st of
              Returns (Inl err, st') \<Rightarrow>
                parLoop cfg ev sched importPaths rest packages
                  (errors @ [ScrapeFailed (importPaths ! i) err]) st'
            | Returns (Inr p, st') \<Rightarrow>
                parLoop cfg ev sched importPaths rest (packages @ [p]) errors st'
            | Panics \<Rightarrow> Panics
            | Blocks \<Rightarrow> Blocks)
      else parLoop cfg ev sched importPaths rest packages errors st)"

text \<open>The end of both branches: the packages and the first error, if any.\<close>

definition finish ::
  "((Package list \<times> error list) \<times> ScrapingStats) outcome \<Rightarrow>
     ((Package list \<times> error option) \<times> ScrapingStats) outcome" where
  "finish r =
     (case r of
        Returns ((packages, errors), st) \<Rightarrow>
          (if length errors > 0 then Returns ((packages, Some (errors ! 0)), st)
           else Returns ((packages, None), st))
      | Panics \<Rightarrow> Panics
      | Blocks \<Rightarrow> Blocks)"

text \<open>
  \<^verbatim>\<open>ScrapePackages\<close>.  \<^verbatim>\<open>make(chan struct{}, n)\<close> panics for a negative \<open>n\<close>.  With
  \<open>n = 0\<close> the channel has no buffer and nobody receives from it before sending, so that
  a goroutine passes its first \<^verbatim>\<open>select\<close> only through \<^verbatim>\<open>ctx.Done()\<close>: unless every
  goroutine is cancelled, \<^verbatim>\<open>wg.Wait()\<close> blocks for ever.
\<close>

definition ScrapePackages ::
  "ScrapingConfig \<Rightarrow> env \<Rightarrow> schedule \<Rightarrow> string list \<Rightarrow> ScrapingStats \<Rightarrow>
     ((Package list \<times> error option) \<times> ScrapingStats) outcome" where
  "ScrapePackages cfg ev sched importPaths st =
     (if length importPaths = 0 then Returns (([], Some NoImportPaths), st)
      else if TestMode cfg then finish (seqLoop cfg ev importPaths [] [] st)
      else if MaxConcurrency cfg < 0 then Panics
      else if MaxConcurrency cfg = 0
      then (if list_all (cancelled sched) [0..<length importPaths]
            then Returns (([], None), st) else Blocks)
      else finish (parLoop cfg ev sched importPaths (order sched) [] [] st))"

section \<open>The returned import path\<close>

lemma runCallbacks_ImportPath:
  "runCallbacks ev importPath es vs = Returns vs' \<Longrightarrow>
   (\<forall>p. pkg vs = Some p \<longrightarrow> ImportPath p = importPath) \<Longrightarrow>
   pkg vs' = Some p' \<Longrightarrow> ImportPath p' = importPath"
proof (induction es arbitrary: vs)
  case Nil
  then show ?case by simp
next
  case (Cons e es)
  from Cons.prems(1) obtain vs1 where
    step: "onHTML ev importPath e vs = Returns vs1" and
    rest: "runCallbacks ev importPath es vs1 = Returns vs'"
    by (auto split: outcome.splits)
  from step have "\<forall>p. pkg vs1 = Some p \<longrightarrow> ImportPath p = importPath"
    by (auto simp: onHTML_def Let_def split: outcome.splits sum.splits)
  from Cons.IH [OF rest this Cons.prems(3)] show ?case .
qed

text \<open>
  C10.  Whenever \<^verbatim>\<open>ScrapePackageWithRaw\<close> returns a package for the identifier
  \<open>importPath\<close>, the \<^verbatim>\<open>ImportPath\<close> of that package is \<open>importPath\<close> itself, whatever the
  page has in its breadcrumb: in test mode the mock package is built with it, and
  otherwise the callback overwrites the field after the extraction.
\<close>

theorem ScrapePackageWithRaw_ImportPath:
  assumes "ScrapePackageWithRaw cfg ev importPath st = Returns (Inr (p, raw), st')"
  shows "ImportPath p = importPath"
proof (cases "TrimSpace importPath = [] \<or> TestMode cfg")
  case True
  with assms show ?thesis
    by (auto simp: ScrapePackageWithRaw_def mockPackage_def Let_def split: if_splits)
next
  case False
  with assms obtain es vs where
    run: "runCallbacks ev importPath es \<lparr>pkg = None, rawHTML = [], scrapeErr = None\<rparr> = Returns vs"
    and p: "pkg vs = Some p"
    by (auto simp: ScrapePackageWithRaw_def Let_def
             split: if_splits visit.splits outcome.splits option.splits)
  from runCallbacks_ImportPath [OF run _ p] show ?thesis by simp
qed

text \<open>
  A page whose breadcrumb names another path than the one that is asked for, and an
  environment that serves it.
\<close>

definition breadcrumb_page :: node where
  "breadcrumb_page =
     Element ''html'' []
       [Element ''body'' []
          [Element ''h1'' [(''class'', ''UnitHeader-titleHeading'')] [TextNode ''cobra''],
           Element ''span'' [(''class'', ''UnitHeader-breadcrumbCurrent'')]
             [TextNode ''github.com/other/path'']]]"

definition plain_config :: ScrapingConfig where
  "plain_config =
     \<lparr>MaxConcurrency = 2, Delay = 2, Timeout = 30, UserAgent = ''docinator-scraper/1.0'',
      Debug = False, TestMode = False\<rparr>"

definition no_stats :: ScrapingStats where
  "no_stats = \<lparr>PackagesScraped = 0, RequestsMade = 0, Errors = 0, StartTime = 0\<rparr>"

definition breadcrumb_env :: env where
  "breadcrumb_env =
     \<lparr>Visit = (\<lambda>url. Visited [breadcrumb_page]), Html = (\<lambda>n. Some ''<body></body>''),
      entityOrder = (\<lambda>k. repl), replacementOrder = replacements, Now = 7\<rparr>"

theorem ScrapePackageWithRaw_ImportPath_witness:
  "ScrapePackageWithRaw plain_config breadcrumb_env ''github.com/spf13/cobra'' no_stats =
     Returns (Inr (emptyPackage\<lparr>Package.Name := ''cobra'', ImportPath := ''github.com/spf13/cobra'',
                                 ScrapedAt := 7\<rparr>, ''<body></body>''),
              no_stats\<lparr>PackagesScraped := 1\<rparr>) \<and>
   ImportPath (emptyPackage\<lparr>Package.Name := ''cobra'', ImportPath := ''github.com/spf13/cobra'',
                              ScrapedAt := 7\<rparr>) = ''github.com/spf13/cobra''"
proof -
  have run: "ScrapePackageWithRaw plain_config breadcrumb_env ''github.com/spf13/cobra'' no_stats =
     Returns (Inr (emptyPackage\<lparr>Package.Name := ''cobra'', ImportPath := ''github.com/spf13/cobra'',
                                 ScrapedAt := 7\<rparr>, ''<body></body>''),
              no_stats\<lparr>PackagesScraped := 1\<rparr>)"
    by code_simp
  from run ScrapePackageWithRaw_ImportPath [OF run] show ?thesis by simp
qed

section \<open>ConvertHTMLToMarkdown never panics\<close>

text \<open>
  A match of a pattern depends only on the text that it consumes: \<open>takes r x\<close> says that
  \<open>r\<close> matches the prefix \<open>x\<close> of every input that starts with \<open>x\<close>.  So the text of a
  match matches again when the pattern is applied to it alone, and \<^verbatim>\<open>FindStringSubmatch\<close>
  in the function literal of stage 1 never returns \<^verbatim>\<open>nil\<close>.
\<close>

lemma HasPrefix_append: "HasPrefix s p \<Longrightarrow> s = p @ drop (length p) s"
  by (induction s p rule: HasPrefix.induct) auto

lemma HasPrefix_self_append: "HasPrefix (p @ t) p"
  by (induction p) auto

definition takes :: "regex \<Rightarrow> string \<Rightarrow> bool" where
  "takes r x = (\<forall>t c0. \<exists>c1. (t, c1) \<in> set (rmatch r (x @ t) c0))"

lemma rmatch_local:
  "(rest, c') \<in> set (rmatch r s c) \<Longrightarrow> \<exists>x. s = x @ rest \<and> takes r x"
proof (induction r s c arbitrary: rest c' rule: rmatch.induct)
  case (1 ch s cs)
  then obtain a where a: "a \<in> set (foldAlts ch)" "HasPrefix s a" "rest = drop (length a) s"
    by auto
  have "takes (Lit ch) a"
    unfolding takes_def using a(1) by (auto simp: HasPrefix_self_append intro!: image_eqI [where x = a])
  with a HasPrefix_append [OF a(2)] show ?case by metis
next
  case (2 ch s cs)
  then obtain x where "s = x # rest" "x \<noteq> ch" by (auto split: list.splits if_splits)
  moreover from this have "takes (NotChar ch) [x]" by (simp add: takes_def)
  ultimately show ?case by (intro exI [of _ "[x]"]) simp
next
  case (3 s cs)
  then obtain x where "s = x # rest" "x \<in> set re_space" by (auto split: list.splits if_splits)
  moreover from this have "takes Space [x]" by (simp add: takes_def)
  ultimately show ?case by (intro exI [of _ "[x]"]) simp
next
  case (4 s cs)
  then obtain x where "s = x # rest" by (auto split: list.splits)
  moreover have "takes AnyChar [x]" by (simp add: takes_def)
  ultimately show ?case by (intro exI [of _ "[x]"]) simp
next
  case (5 s cs)
  then show ?case by (intro exI [of _ "[]"]) (simp add: takes_def)
next
  case (6 a b s cs)
  from "6.prems" obtain p where p: "p \<in> set (rmatch a s cs)" "(rest, c') \<in> set (rmatch b (fst p) (snd p))"
    by auto
  from "6.IH"(1) [of "fst p" "snd p"] p(1) obtain x1 where x1: "s = x1 @ fst p" "takes a x1" by auto
  from "6.IH"(2) [OF p(1) p(2)] obtain x2 where x2: "fst p = x2 @ rest" "takes b x2" by auto
  have "takes (Seq a b) (x1 @ x2)"
    unfolding takes_def
  proof (intro allI)
    fix t c0
    from x1(2) obtain c1 where c1: "(x2 @ t, c1) \<in> set (rmatch a (x1 @ x2 @ t) c0)"
      unfolding takes_def by blast
    from x2(2) obtain c2 where c2: "(t, c2) \<in> set (rmatch b (x2 @ t) c1)"
      unfolding takes_def by blast
    from c1 c2 show "\<exists>c1. (t, c1) \<in> set (rmatch (Seq a b) ((x1 @ x2) @ t) c0)"
      by (auto intro!: exI [of _ c2] bexI [of _ "(x2 @ t, c1)"])
  qed
  with x1 x2 show ?case by (intro exI [of _ "x1 @ x2"]) simp
next
  case (7 r s cs)
  show ?case
  proof (cases "(rest, c') = (s, cs)")
    case True
    have "takes (Star r) []" unfolding takes_def by (subst rmatch.simps(7)) auto
    with True show ?thesis by (intro exI [of _ "[]"]) simp
  next
    case False
    with "7.prems" obtain p where p: "p \<in> set (rmatch r s cs)" "length (fst p) < length s"
      "(rest, c') \<in> set (rmatch (Star r) (fst p) (snd p))"
      by (subst (asm) rmatch.simps(7)) (auto split: if_splits)
    from "7.IH"(1) [of "fst p" "snd p"] p(1) obtain x1 where x1: "s = x1 @ fst p" "takes r x1" by auto
    from "7.IH"(2) [OF p] obtain x2 where x2: "fst p = x2 @ rest" "takes (Star r) x2" by auto
    from x1(1) p(2) have ne: "x1 \<noteq> []" by auto
    have "takes (Star r) (x1 @ x2)"
      unfolding takes_def
    proof (intro allI)
      fix t c0
      from x1(2) obtain c1 where c1: "(x2 @ t, c1) \<in> set (rmatch r (x1 @ x2 @ t) c0)"
        unfolding takes_def by blast
      from x2(2) obtain c2 where c2: "(t, c2) \<in> set (rmatch (Star r) (x2 @ t) c1)"
        unfolding takes_def by blast
      from c1 c2 ne show "\<exists>c1. (t, c1) \<in> set (rmatch (Star r) ((x1 @ x2) @ t) c0)"
        by (subst rmatch.simps(7)) (auto intro!: exI [of _ c2] bexI [of _ "(x2 @ t, c1)"])
    qed
    with x1 x2 show ?thesis by (intro exI [of _ "x1 @ x2"]) simp
  qed
next
  case (8 r s cs)
  show ?case
  proof (cases "(rest, c') = (s, cs)")
    case True
    have "takes (Lazy r) []" unfolding takes_def by (subst rmatch.simps(8)) auto
    with True show ?thesis by (intro exI [of _ "[]"]) simp
  next
    case False
    with "8.prems" obtain p where p: "p \<in> set (rmatch r s cs)" "length (fst p) < length s"
      "(rest, c') \<in> set (rmatch (Lazy r) (fst p) (snd p))"
      by (subst (asm) rmatch.simps(8)) (auto split: if_splits)
    from "8.IH"(1) [of "fst p" "snd p"] p(1) obtain x1 where x1: "s = x1 @ fst p" "takes r x1" by auto
    from "8.IH"(2) [OF p] obtain x2 where x2: "fst p = x2 @ rest" "takes (Lazy r) x2" by auto
    from x1(1) p(2) have ne: "x1 \<noteq> []" by auto
    have "takes (Lazy r) (x1 @ x2)"
      unfolding takes_def
    proof (intro allI)
      fix t c0
      from x1(2) obtain c1 where c1: "(x2 @ t, c1) \<in> set (rmatch r (x1 @ x2 @ t) c0)"
        unfolding takes_def by blast
      from x2(2) obtain c2 where c2: "(t, c2) \<in> set (rmatch (Lazy r) (x2 @ t) c1)"
        unfolding takes_def by blast
      from c1 c2 ne show "\<exists>c1. (t, c1) \<in> set (rmatch (Lazy r) ((x1 @ x2) @ t) c0)"
        by (subst rmatch.simps(8)) (auto intro!: exI [of _ c2] bexI [of _ "(x2 @ t, c1)"])
    qed
    with x1 x2 show ?thesis by (intro exI [of _ "x1 @ x2"]) simp
  qed
next
  case (9 r s cs)
  show ?case
  proof (cases "(rest, c') = (s, cs)")
    case True
    have "takes (Opt r) []" by (auto simp: takes_def)
    with True show ?thesis by (intro exI [of _ "[]"]) simp
  next
    case False
    with "9.prems" have "(rest, c') \<in> set (rmatch r s cs)" by auto
    from "9.IH" [OF this] obtain x where x: "s = x @ rest" "takes r x" by auto
    from x(2) have "takes (Opt r) x" unfolding takes_def by (simp, blast)
    with x show ?thesis by blast
  qed
next
  case (10 i r s cs)
  from "10.prems" obtain p where p: "p \<in> set (rmatch r s cs)" "rest = fst p" by auto
  from "10.IH" [of "fst p" "snd p"] p obtain x where x: "s = x @ rest" "takes r x" by auto
  have "takes (Group i r) x"
    unfolding takes_def
  proof (intro allI)
    fix t c0
    from x(2) obtain c1 where "(t, c1) \<in> set (rmatch r (x @ t) c0)" unfolding takes_def by blast
    then show "\<exists>c1. (t, c1) \<in> set (rmatch (Group i r) (x @ t) c0)"
      by (auto intro!: exI [of _ "(i, x) # c1"] image_eqI [where x = "(t, c1)"])
  qed
  with x show ?case by blast
qed

lemma matchHere_again:
  assumes "matchHere re s = Some p"
  shows "matchHere re (take (length s - length (fst p)) s) \<noteq> None"
proof -
  from assms have "(fst p, snd p) \<in> set (rmatch re s [])"
    by (auto simp: matchHere_def split: list.splits)
  from rmatch_local [OF this] obtain x where x: "s = x @ fst p" "takes re x" by blast
  from x(1) have "take (length s - length (fst p)) s = x"
    by (metis add_diff_cancel_right' append_eq_conv_conj length_append)
  moreover from x(2) obtain c1 where "([], c1) \<in> set (rmatch re (x @ []) [])"
    unfolding takes_def by blast
  ultimately show ?thesis by (auto simp: matchHere_def split: list.splits)
qed

lemma FindStringSubmatch_Some:
  "matchHere re s \<noteq> None \<Longrightarrow> \<exists>ms. FindStringSubmatch re n s = Some ms"
  by (cases s) (auto split: option.splits)

lemma preCodeFunc_total:
  "matchHere preCodeRe m \<noteq> None \<Longrightarrow> \<exists>r. preCodeFunc eo k m = Some r"
  using FindStringSubmatch_Some [of preCodeRe m 2]
  by (auto simp: preCodeFunc_def Let_def)

lemma ReplaceAllStringFunc_total:
  assumes "\<And>k m. matchHere re m \<noteq> None \<Longrightarrow> \<exists>r. f k m = Some r"
  shows "\<exists>y. ReplaceAllStringFunc re f k s = Some y"
  using assms
proof (induction re f k s rule: ReplaceAllStringFunc.induct)
  case (1 re f k s)
  note f = "1.prems"
  show ?case
  proof (cases "matchHere re s")
    case None
    show ?thesis
    proof (cases s)
      case Nil
      with None show ?thesis by (subst ReplaceAllStringFunc.simps) simp
    next
      case (Cons c cs)
      from "1.IH" None Cons f obtain y where "ReplaceAllStringFunc re f k cs = Some y" by blast
      with None Cons show ?thesis
        by (subst ReplaceAllStringFunc.simps) simp
    qed
  next
    case (Some p)
    from f [OF matchHere_again [OF Some], of k]
    obtain r where r: "f k (take (length s - length (fst p)) s) = Some r" ..
    show ?thesis
    proof (cases "length (fst p) < length s")
      case True
      from "1.IH" Some r True f obtain y where "ReplaceAllStringFunc re f (Suc k) (fst p) = Some y"
        by blast
      with Some r True show ?thesis
        by (subst ReplaceAllStringFunc.simps) simp
    next
      case False
      show ?thesis
      proof (cases s)
        case Nil
        with Some r False show ?thesis by (subst ReplaceAllStringFunc.simps) simp
      next
        case (Cons c cs)
        from "1.IH" Some r False Cons f obtain y where "ReplaceAllStringFunc re f (Suc k) cs = Some y"
          by blast
        with Some r False Cons show ?thesis
          by (subst ReplaceAllStringFunc.simps) simp
      qed
    qed
  qed
qed

lemma ConvertHTMLToMarkdown_total: "\<exists>md. ConvertHTMLToMarkdown eo ro html = Some md"
proof -
  obtain y where "ReplaceAllStringFunc preCodeRe (preCodeFunc eo) 0
     (unescapeCommonEntities (eo 0) (ReplaceAll html [CHR 0x0D, CHR 0x0A] [CHR 0x0A])) = Some y"
    using ReplaceAllStringFunc_total [of preCodeRe "preCodeFunc eo"] preCodeFunc_total by blast
  then show ?thesis by (simp add: ConvertHTMLToMarkdown_def Let_def)
qed

section \<open>A parsed document never fails\<close>

lemma setReadme_total: "\<exists>p. setReadme ev doc pkg0 = Some p"
  using ConvertHTMLToMarkdown_total [of "entityOrder ev" "replacementOrder ev"]
  by (auto simp: setReadme_def Let_def split: option.splits) (metis option.distinct(1))

lemma ParsePackagePage_returns: "\<exists>p. ParsePackagePage ev e = Returns (Inr p)"
proof -
  obtain q where "setReadme ev [(e, [])]
      (setDescription [(e, [])] (setRepository [(e, [])] (setImportedBy [(e, [])]
        (setImports [(e, [])] (setLicense [(e, [])] (setPublished [(e, [])]
          (setIsLatest [(e, [])] (setVersion [(e, [])] (setImportPath [(e, [])]
            (setName [(e, [])] emptyPackage)))))))))) = Some q"
    using setReadme_total by blast
  then show ?thesis by (simp add: ParsePackagePage_def Let_def)
qed

lemma onHTML_returns:
  "\<exists>p h. onHTML ev importPath e vs =
     Returns (vs\<lparr>rawHTML := h, pkg := Some (p\<lparr>ImportPath := importPath, ScrapedAt := Now ev\<rparr>)\<rparr>) \<and>
     ParsePackagePage ev e = Returns (Inr p)"
proof -
  obtain p where "ParsePackagePage ev e = Returns (Inr p)"
    using ParsePackagePage_returns by blast
  then show ?thesis
    by (intro exI [of _ p] exI [of _ "case Html ev e of None \<Rightarrow> [] | Some h \<Rightarrow> h"])
       (simp add: onHTML_def Let_def)
qed

lemma runCallbacks_returns:
  "\<exists>vs'. runCallbacks ev importPath es vs = Returns vs' \<and> scrapeErr vs' = scrapeErr vs \<and>
     (es \<noteq> [] \<longrightarrow> pkg vs' \<noteq> None) \<and> (es = [] \<longrightarrow> vs' = vs)"
proof (induction es arbitrary: vs)
  case Nil
  then show ?case by simp
next
  case (Cons e es)
  obtain p h where step: "onHTML ev importPath e vs =
     Returns (vs\<lparr>rawHTML := h, pkg := Some (p\<lparr>ImportPath := importPath, ScrapedAt := Now ev\<rparr>)\<rparr>)"
    using onHTML_returns by blast
  let ?vs1 = "vs\<lparr>rawHTML := h, pkg := Some (p\<lparr>ImportPath := importPath, ScrapedAt := Now ev\<rparr>)\<rparr>"
  from Cons.IH [of ?vs1] obtain vs' where
    r: "runCallbacks ev importPath es ?vs1 = Returns vs'" "scrapeErr vs' = scrapeErr ?vs1"
       "es \<noteq> [] \<longrightarrow> pkg vs' \<noteq> None" "es = [] \<longrightarrow> vs' = ?vs1"
    by blast
  from step r show ?case by (cases "es = []") auto
qed

text \<open>
  C1 (as amended).  \<^verbatim>\<open>ParsePackagePage\<close> returns a package and no error for every
  document, also when neither a name nor an import path is found.  For a non-blank
  identifier and outside test mode, \<^verbatim>\<open>ScrapePackageWithRaw\<close> returns an error exactly
  when the visit fails or hands no \<^verbatim>\<open>html\<close> element to the callback; the latter is the
  error "no package data found".  Whenever a document reaches the callback the call
  returns a package.
\<close>

theorem parsed_document_never_fails:
  assumes "TrimSpace importPath \<noteq> []" and "\<not> TestMode cfg"
  shows "(\<exists>p. ParsePackagePage ev e = Returns (Inr p)) \<and>
         (case Visit ev (''https://pkg.go.dev/'' @ TrimSpace importPath) of
            VisitError msg \<Rightarrow>
              ScrapePackageWithRaw cfg ev importPath st =
                Returns (Inl (VisitFailed (''https://pkg.go.dev/'' @ TrimSpace importPath) msg), st)
          | Visited [] \<Rightarrow>
              ScrapePackageWithRaw cfg ev importPath st =
                Returns (Inl (NoPackageData importPath), st)
          | Visited (d # ds) \<Rightarrow>
              (\<exists>p raw. ScrapePackageWithRaw cfg ev importPath st =
                 Returns (Inr (p, raw), st\<lparr>PackagesScraped := PackagesScraped st + 1\<rparr>)))"
proof
  show "\<exists>p. ParsePackagePage ev e = Returns (Inr p)" by (rule ParsePackagePage_returns)
  show "case Visit ev (''https://pkg.go.dev/'' @ TrimSpace importPath) of
            VisitError msg \<Rightarrow>
              ScrapePackageWithRaw cfg ev importPath st =
                Returns (Inl (VisitFailed (''https://pkg.go.dev/'' @ TrimSpace importPath) msg), st)
          | Visited [] \<Rightarrow>
              ScrapePackageWithRaw cfg ev importPath st =
                Returns (Inl (NoPackageData importPath), st)
          | Visited (d # ds) \<Rightarrow>
              (\<exists>p raw. ScrapePackageWithRaw cfg ev importPath st =
                 Returns (Inr (p, raw), st\<lparr>PackagesScraped := PackagesScraped st + 1\<rparr>))"
  proof (cases "Visit ev (''https://pkg.go.dev/'' @ TrimSpace importPath)")
    case (VisitError msg)
    with assms show ?thesis by (simp add: ScrapePackageWithRaw_def Let_def)
  next
    case (Visited ds)
    show ?thesis
    proof (cases ds)
      case Nil
      with Visited assms show ?thesis by (simp add: ScrapePackageWithRaw_def Let_def)
    next
      case (Cons d ds')
      obtain vs' where r: "runCallbacks ev importPath (d # ds') \<lparr>pkg = None, rawHTML = [], scrapeErr = None\<rparr>
          = Returns vs'" "scrapeErr vs' = None" "pkg vs' \<noteq> None"
        using runCallbacks_returns [of ev importPath "d # ds'" "\<lparr>pkg = None, rawHTML = [], scrapeErr = None\<rparr>"]
        by auto
      then obtain p where "pkg vs' = Some p" by auto
      with r Visited Cons assms show ?thesis by (simp add: ScrapePackageWithRaw_def Let_def)
    qed
  qed
qed


text \<open>
  A document with neither a name nor an import path: the extraction succeeds with the
  empty package, and the scrape returns it with the identifier as its import path.
\<close>

definition empty_page :: node where
  "empty_page = Element ''html'' [] [Element ''head'' [] [], Element ''body'' [] []]"

definition empty_env :: env where
  "empty_env =
     \<lparr>Visit = (\<lambda>url. Visited [empty_page]), Html = (\<lambda>n. Some ''<head></head><body></body>''),
      entityOrder = (\<lambda>k. repl), replacementOrder = replacements, Now = 7\<rparr>"

theorem empty_document_succeeds:
  "ParsePackagePage empty_env empty_page = Returns (Inr emptyPackage) \<and>
   Package.Name emptyPackage = [] \<and> ImportPath emptyPackage = [] \<and>
   ScrapePackageWithRaw plain_config empty_env ''github.com/spf13/cobra'' no_stats =
     Returns (Inr (emptyPackage\<lparr>ImportPath := ''github.com/spf13/cobra'', ScrapedAt := 7\<rparr>,
                   ''<head></head><body></body>''),
              no_stats\<lparr>PackagesScraped := 1\<rparr>)"
  by code_simp

theorem parsed_document_never_fails_witness:
  "TrimSpace ''github.com/spf13/cobra'' \<noteq> [] \<and> \<not> TestMode plain_config \<and>
   ParsePackagePage empty_env empty_page = Returns (Inr emptyPackage) \<and>
   ScrapePackageWithRaw plain_config empty_env ''github.com/spf13/cobra'' no_stats =
     Returns (Inr (emptyPackage\<lparr>ImportPath := ''github.com/spf13/cobra'', ScrapedAt := 7\<rparr>,
                   ''<head></head><body></body>''),
              no_stats\<lparr>PackagesScraped := 1\<rparr>)"
proof -
  have a: "TrimSpace ''github.com/spf13/cobra'' \<noteq> []" by code_simp
  have b: "\<not> TestMode plain_config" by (simp add: plain_config_def)
  have c: "ParsePackagePage empty_env empty_page = Returns (Inr emptyPackage)" by code_simp
  have d: "ScrapePackageWithRaw plain_config empty_env ''github.com/spf13/cobra'' no_stats =
     Returns (Inr (emptyPackage\<lparr>ImportPath := ''github.com/spf13/cobra'', ScrapedAt := 7\<rparr>,
                   ''<head></head><body></body>''),
              no_stats\<lparr>PackagesScraped := 1\<rparr>)" by code_simp
  from parsed_document_never_fails [OF a b, of empty_env empty_page no_stats] a b c d
  show ?thesis by simp
qed

section \<open>The batch call\<close>

text \<open>
  The result of scraping one identifier does not depend on the statistics;
  \<open>scrapeResult\<close> is that result.
\<close>

definition scrapeResult :: "ScrapingConfig \<Rightarrow> env \<Rightarrow> string \<Rightarrow> error + Package" where
  "scrapeResult cfg ev importPath =
     (case ScrapePackage cfg ev importPath
             \<lparr>PackagesScraped = 0, RequestsMade = 0, Errors = 0, StartTime = 0\<rparr> of
        Returns (r, st) \<Rightarrow> r
      | _ \<Rightarrow> Inl EmptyImportPath)"

text \<open>The packages and the errors of a list of results, in the order of the list.\<close>

definition packagesOf :: "(string \<times> (error + Package)) list \<Rightarrow> Package list" where
  "packagesOf rs = List.map_filter (\<lambda>r. case snd r of Inr p \<Rightarrow> Some p | Inl e \<Rightarrow> None) rs"

definition errorsOf :: "(string \<times> (error + Package)) list \<Rightarrow> error list" where
  "errorsOf rs =
     List.map_filter (\<lambda>r. case snd r of Inl e \<Rightarrow> Some (ScrapeFailed (fst r) e) | Inr p \<Rightarrow> None) rs"

lemma ScrapePackageWithRaw_state:
  "\<exists>r. \<forall>st. \<exists>st'. ScrapePackageWithRaw cfg ev importPath st = Returns (r, st')"
proof (cases "TrimSpace importPath = [] \<or> TestMode cfg")
  case True
  then show ?thesis by (auto simp: ScrapePackageWithRaw_def Let_def)
next
  case False
  show ?thesis
  proof (cases "Visit ev (''https://pkg.go.dev/'' @ TrimSpace importPath)")
    case (VisitError m)
    with False show ?thesis by (simp add: ScrapePackageWithRaw_def Let_def)
  next
    case (Visited es)
    obtain vs' where r: "runCallbacks ev importPath es \<lparr>pkg = None, rawHTML = [], scrapeErr = None\<rparr>
        = Returns vs'" "scrapeErr vs' = None"
      using runCallbacks_returns [of ev importPath es "\<lparr>pkg = None, rawHTML = [], scrapeErr = None\<rparr>"]
      by auto
    show ?thesis
    proof (cases "pkg vs'")
      case None
      with False Visited r show ?thesis by (simp add: ScrapePackageWithRaw_def Let_def)
    next
      case (Some p)
      with False Visited r show ?thesis by (simp add: ScrapePackageWithRaw_def Let_def)
    qed
  qed
qed

lemma ScrapePackage_scrapeResult:
  "\<exists>st'. ScrapePackage cfg ev importPath st = Returns (scrapeResult cfg ev importPath, st')"
proof -
  from ScrapePackageWithRaw_state [of cfg ev importPath] obtain r where
    r: "\<And>st. \<exists>st'. ScrapePackageWithRaw cfg ev importPath st = Returns (r, st')" by blast
  from r [of st] obtain st' where a: "ScrapePackageWithRaw cfg ev importPath st = Returns (r, st')" ..
  from r [of "\<lparr>PackagesScraped = 0, RequestsMade = 0, Errors = 0, StartTime = 0\<rparr>"]
  obtain st0 where b: "ScrapePackageWithRaw cfg ev importPath
      \<lparr>PackagesScraped = 0, RequestsMade = 0, Errors = 0, StartTime = 0\<rparr> = Returns (r, st0)" ..
  from a b show ?thesis by (simp add: ScrapePackage_def scrapeResult_def)
qed

lemma packagesOf_snoc:
  "packagesOf (rs @ [(x, r)]) = packagesOf rs @ (case r of Inr p \<Rightarrow> [p] | Inl e \<Rightarrow> [])"
  by (simp add: packagesOf_def List.map_filter_def split: sum.splits)

lemma errorsOf_snoc:
  "errorsOf (rs @ [(x, r)]) = errorsOf rs @ (case r of Inl e \<Rightarrow> [ScrapeFailed x e] | Inr p \<Rightarrow> [])"
  by (simp add: errorsOf_def List.map_filter_def split: sum.splits)

lemma packagesOf_Cons:
  "packagesOf ((x, r) # rs) = (case r of Inr p \<Rightarrow> [p] | Inl e \<Rightarrow> []) @ packagesOf rs"
  by (simp add: packagesOf_def List.map_filter_def split: sum.splits)

lemma errorsOf_Cons:
  "errorsOf ((x, r) # rs) = (case r of Inl e \<Rightarrow> [ScrapeFailed x e] | Inr p \<Rightarrow> []) @ errorsOf rs"
  by (simp add: errorsOf_def List.map_filter_def split: sum.splits)

lemma seqLoop_results:
  "\<exists>st'. seqLoop cfg ev importPaths packages errors st =
     Returns ((packages @ packagesOf (map (\<lambda>p. (p, scrapeResult cfg ev p)) importPaths),
               errors @ errorsOf (map (\<lambda>p. (p, scrapeResult cfg ev p)) importPaths)), st')"
proof (induction importPaths arbitrary: packages errors st)
  case Nil
  then show ?case by (simp add: packagesOf_def errorsOf_def List.map_filter_def)
next
  case (Cons p ps)
  obtain st1 where s: "ScrapePackage cfg ev p st = Returns (scrapeResult cfg ev p, st1)"
    using ScrapePackage_scrapeResult by blast
  show ?case
  proof (cases "scrapeResult cfg ev p")
    case (Inl e)
    with s Cons.IH [of packages "errors @ [ScrapeFailed p e]" st1] show ?thesis
      by (simp add: packagesOf_Cons errorsOf_Cons)
  next
    case (Inr x)
    with s Cons.IH [of "packages @ [x]" errors st1] show ?thesis
      by (simp add: packagesOf_Cons errorsOf_Cons)
  qed
qed

lemma parLoop_results:
  assumes "\<forall>i \<in> set is. i < length importPaths"
  shows "\<exists>st'. parLoop cfg ev sched importPaths is packages errors st =
     Returns ((packages @ packagesOf (map (\<lambda>i. (importPaths ! i, scrapeResult cfg ev (importPaths ! i)))
                                       (filter (\<lambda>i. \<not> cancelled sched i) is)),
               errors @ errorsOf (map (\<lambda>i. (importPaths ! i, scrapeResult cfg ev (importPaths ! i)))
                                   (filter (\<lambda>i. \<not> cancelled sched i) is))), st')"
  using assms
proof (induction "is" arbitrary: packages errors st)
  case Nil
  then show ?case by (simp add: packagesOf_def errorsOf_def List.map_filter_def)
next
  case (Cons i "is")
  from Cons.prems have i: "i < length importPaths" and rest: "\<forall>i \<in> set is. i < length importPaths"
    by auto
  show ?case
  proof (cases "cancelled sched i")
    case True
    with Cons.IH [OF rest, of packages errors st] show ?thesis by simp
  next
    case False
    obtain st1 where s: "ScrapePackage cfg ev (importPaths ! i) st =
        Returns (scrapeResult cfg ev (importPaths ! i), st1)"
      using ScrapePackage_scrapeResult by blast
    show ?thesis
    proof (cases "scrapeResult cfg ev (importPaths ! i)")
      case (Inl e)
      with s i False Cons.IH [OF rest, of packages "errors @ [ScrapeFailed (importPaths ! i) e]" st1]
      show ?thesis by (simp add: packagesOf_Cons errorsOf_Cons)
    next
      case (Inr x)
      with s i False Cons.IH [OF rest, of "packages @ [x]" errors st1]
      show ?thesis by (simp add: packagesOf_Cons errorsOf_Cons)
    qed
  qed
qed

lemma ScrapePackage_test:
  "TestMode cfg \<Longrightarrow>
   ScrapePackage cfg ev p st =
     Returns (if TrimSpace p = [] then Inl EmptyImportPath else Inr (mockPackage ev p), st)"
  by (simp add: ScrapePackage_def ScrapePackageWithRaw_def Let_def)

lemma seqLoop_test:
  "TestMode cfg \<Longrightarrow>
   seqLoop cfg ev ps packages errors st =
     Returns ((packages @ map (mockPackage ev) (filter (\<lambda>p. TrimSpace p \<noteq> []) ps),
               errors @ map (\<lambda>p. ScrapeFailed p EmptyImportPath) (filter (\<lambda>p. TrimSpace p = []) ps)),
              st)"
  by (induction ps arbitrary: packages errors) (simp_all add: ScrapePackage_test)

text \<open>
  C9.  In test mode \<^verbatim>\<open>ScrapePackages\<close> takes the sequential branch, which goes through
  the identifiers from the first to the last.  Every non-blank identifier gives its mock
  package and every blank one an error; the call returns the packages in the order of
  the input, the failed identifiers left out, with the first error, and the import paths
  of the returned packages are the non-blank identifiers in the order of the input.
\<close>

theorem test_mode_input_order:
  assumes "TestMode cfg" and "importPaths \<noteq> []"
  shows "ScrapePackages cfg ev sched importPaths st =
           Returns ((map (mockPackage ev) (filter (\<lambda>p. TrimSpace p \<noteq> []) importPaths),
                     (case filter (\<lambda>p. TrimSpace p = []) importPaths of
                        [] \<Rightarrow> None
                      | p # ps \<Rightarrow> Some (ScrapeFailed p EmptyImportPath))), st) \<and>
         map ImportPath (map (mockPackage ev) (filter (\<lambda>p. TrimSpace p \<noteq> []) importPaths)) =
           filter (\<lambda>p. TrimSpace p \<noteq> []) importPaths"
proof
  show "ScrapePackages cfg ev sched importPaths st =
           Returns ((map (mockPackage ev) (filter (\<lambda>p. TrimSpace p \<noteq> []) importPaths),
                     (case filter (\<lambda>p. TrimSpace p = []) importPaths of
                        [] \<Rightarrow> None
                      | p # ps \<Rightarrow> Some (ScrapeFailed p EmptyImportPath))), st)"
    using assms
    by (cases "filter (\<lambda>p. TrimSpace p = []) importPaths")
       (simp_all add: ScrapePackages_def seqLoop_test finish_def)
  show "map ImportPath (map (mockPackage ev) (filter (\<lambda>p. TrimSpace p \<noteq> []) importPaths)) =
           filter (\<lambda>p. TrimSpace p \<noteq> []) importPaths"
    by (induction importPaths) (simp_all add: mockPackage_def)
qed

definition test_config :: ScrapingConfig where
  "test_config =
     \<lparr>MaxConcurrency = 2, Delay = 2, Timeout = 30, UserAgent = ''docinator-scraper/1.0'',
      Debug = False, TestMode = True\<rparr>"

definition any_schedule :: schedule where
  "any_schedule = \<lparr>order = [], cancelled = (\<lambda>i. True)\<rparr>"

theorem test_mode_input_order_witness:
  "TestMode test_config \<and> [''b'', '' '', ''a''] \<noteq> [] \<and>
   ScrapePackages test_config breadcrumb_env any_schedule [''b'', '' '', ''a''] no_stats =
     Returns (([mockPackage breadcrumb_env ''b'', mockPackage breadcrumb_env ''a''],
               Some (ScrapeFailed '' '' EmptyImportPath)), no_stats) \<and>
   map ImportPath [mockPackage breadcrumb_env ''b'', mockPackage breadcrumb_env ''a''] = [''b'', ''a'']"
proof -
  have t: "TestMode test_config" by (simp add: test_config_def)
  have b: "TrimSpace ''b'' = ''b''" "TrimSpace '' '' = []" "TrimSpace ''a'' = ''a''"
    by (simp_all add: TrimSpace_def space_runes_def)
  from test_mode_input_order [OF t, of "[''b'', '' '', ''a'']" breadcrumb_env any_schedule no_stats] t b
  show ?thesis by simp
qed

section \<open>How many packages the batch call returns\<close>

text \<open>
  A goroutine of the parallel branch that finds the context done is abandoned: it
  neither scrapes nor records an error.  \<open>failures\<close> counts the identifiers whose scrape
  returns an error and \<open>abandoned\<close> those whose goroutine is abandoned.
\<close>

definition abandons :: "ScrapingConfig \<Rightarrow> schedule \<Rightarrow> nat \<Rightarrow> bool" where
  "abandons cfg sched i = (\<not> TestMode cfg \<and> cancelled sched i)"

definition failures :: "ScrapingConfig \<Rightarrow> env \<Rightarrow> schedule \<Rightarrow> string list \<Rightarrow> nat" where
  "failures cfg ev sched importPaths =
     length (filter (\<lambda>i. \<not> abandons cfg sched i \<and> isl (scrapeResult cfg ev (importPaths ! i)))
                    [0..<length importPaths])"

definition abandoned :: "ScrapingConfig \<Rightarrow> schedule \<Rightarrow> string list \<Rightarrow> nat" where
  "abandoned cfg sched importPaths = length (filter (abandons cfg sched) [0..<length importPaths])"

lemma length_packagesOf:
  "length (packagesOf (map (\<lambda>i. (g i, r i)) xs)) = length (filter (\<lambda>i. \<not> isl (r i)) xs)"
proof (induction xs)
  case Nil
  show ?case by (simp add: packagesOf_def List.map_filter_def)
next
  case (Cons x xs)
  then show ?case by (auto simp: packagesOf_Cons split: sum.splits)
qed

lemma abandons_test: "TestMode cfg \<Longrightarrow> abandons cfg sched = (\<lambda>i. False)"
  by (simp add: fun_eq_iff abandons_def)

lemma abandons_parallel: "\<not> TestMode cfg \<Longrightarrow> abandons cfg sched = cancelled sched"
  by (simp add: fun_eq_iff abandons_def)

lemma length_filter_perm:
  "distinct xs \<Longrightarrow> distinct ys \<Longrightarrow> set xs = set ys \<Longrightarrow>
   length (filter P xs) = length (filter P ys)"
  by (simp add: distinct_length_filter)

lemma length_filter_three:
  "length (filter (\<lambda>i. \<not> c i \<and> \<not> f i) xs) + length (filter (\<lambda>i. \<not> c i \<and> f i) xs) +
   length (filter c xs) = length xs"
  by (induction xs) auto

text \<open>
  C4 (as amended).  For a non-empty list of identifiers, in test mode or with a positive
  \<^verbatim>\<open>MaxConcurrency\<close>, \<^verbatim>\<open>ScrapePackages\<close> returns, and the number of packages it returns
  is the number of identifiers less the failures and less the abandoned goroutines (of
  which there are none in test mode).
\<close>

theorem batch_record_count:
  assumes "importPaths \<noteq> []"
    and "TestMode cfg \<or> 0 < MaxConcurrency cfg"
    and "schedule_ok (length importPaths) sched"
  shows "\<exists>packages err st'.
           ScrapePackages cfg ev sched importPaths st = Returns ((packages, err), st') \<and>
           length packages + failures cfg ev sched importPaths + abandoned cfg sched importPaths =
             length importPaths"
proof (cases "TestMode cfg")
  case True
  let ?rs = "map (\<lambda>i. (importPaths ! i, scrapeResult cfg ev (importPaths ! i))) [0..<length importPaths]"
  have "map (\<lambda>p. (p, scrapeResult cfg ev p)) importPaths = ?rs"
    by (rule nth_equalityI) simp_all
  with seqLoop_results [of cfg ev importPaths "[]" "[]" st]
  obtain st' where s: "seqLoop cfg ev importPaths [] [] st = Returns ((packagesOf ?rs, errorsOf ?rs), st')"
    by auto
  have "length (packagesOf ?rs) + failures cfg ev sched importPaths + abandoned cfg sched importPaths
      = length importPaths"
    using True
      length_filter_three [of "\<lambda>i. False" "\<lambda>i. isl (scrapeResult cfg ev (importPaths ! i))"
        "[0..<length importPaths]"]
    by (simp add: length_packagesOf failures_def abandoned_def abandons_test)
  with s True assms(1) show ?thesis
    by (cases "errorsOf ?rs = []") (simp_all add: ScrapePackages_def finish_def)
next
  case False
  with assms have mc: "0 < MaxConcurrency cfg" by simp
  from assms(3) have ok: "distinct (order sched)" "set (order sched) = set [0..<length importPaths]"
    by (simp_all add: schedule_ok_def)
  let ?is = "filter (\<lambda>i. \<not> cancelled sched i) (order sched)"
  let ?rs = "map (\<lambda>i. (importPaths ! i, scrapeResult cfg ev (importPaths ! i))) ?is"
  from ok have "\<forall>i \<in> set (order sched). i < length importPaths" by simp
  from parLoop_results [OF this, of cfg ev sched "[]" "[]" st]
  obtain st' where s: "parLoop cfg ev sched importPaths (order sched) [] [] st =
      Returns ((packagesOf ?rs, errorsOf ?rs), st')"
    by auto
  have "length (packagesOf ?rs) =
      length (filter (\<lambda>i. \<not> cancelled sched i \<and> \<not> isl (scrapeResult cfg ev (importPaths ! i)))
                (order sched))"
    by (simp add: length_packagesOf conj_commute)
  also have "\<dots> = length (filter (\<lambda>i. \<not> cancelled sched i \<and> \<not> isl (scrapeResult cfg ev (importPaths ! i)))
                [0..<length importPaths])"
    using ok by (intro length_filter_perm) simp_all
  finally have "length (packagesOf ?rs) + failures cfg ev sched importPaths +
      abandoned cfg sched importPaths = length importPaths"
    using False
      length_filter_three [of "cancelled sched" "\<lambda>i. isl (scrapeResult cfg ev (importPaths ! i))"
        "[0..<length importPaths]"]
    by (simp add: failures_def abandoned_def abandons_parallel)
  with s False mc assms(1) show ?thesis
    by (cases "errorsOf ?rs = []") (simp_all add: ScrapePackages_def finish_def)
qed

text \<open>
  A schedule that cancels every goroutine, and the call of the parallel branch on one
  identifier under it: no package and no error.
\<close>

definition cancel_all :: schedule where
  "cancel_all = \<lparr>order = [0], cancelled = (\<lambda>i. True)\<rparr>"

theorem cancelled_batch_returns_nothing:
  "ScrapePackages plain_config breadcrumb_env cancel_all [''github.com/spf13/cobra''] no_stats =
     Returns (([], None), no_stats) \<and>
   failures plain_config breadcrumb_env cancel_all [''github.com/spf13/cobra''] = 0 \<and>
   length [''github.com/spf13/cobra''] = 1"
  by code_simp

definition cancel_first :: schedule where
  "cancel_first = \<lparr>order = [2, 0, 1], cancelled = (\<lambda>i. i = 0)\<rparr>"

theorem batch_record_count_witness:
  "[''a'', '' '', ''b''] \<noteq> [] \<and> (TestMode plain_config \<or> 0 < MaxConcurrency plain_config) \<and>
   schedule_ok (length [''a'', '' '', ''b'']) cancel_first \<and>
   failures plain_config breadcrumb_env cancel_first [''a'', '' '', ''b''] = 1 \<and>
   abandoned plain_config cancel_first [''a'', '' '', ''b''] = 1 \<and>
   (\<exists>packages err st'.
      ScrapePackages plain_config breadcrumb_env cancel_first [''a'', '' '', ''b''] no_stats =
        Returns ((packages, err), st') \<and>
      length packages + 1 + 1 = 3)"
proof -
  have a: "[''a'', '' '', ''b''] \<noteq> []" by simp
  have b: "TestMode plain_config \<or> 0 < MaxConcurrency plain_config" by (simp add: plain_config_def)
  have c: "schedule_ok (length [''a'', '' '', ''b'']) cancel_first" by code_simp
  have d: "failures plain_config breadcrumb_env cancel_first [''a'', '' '', ''b''] = 1" by code_simp
  have e: "abandoned plain_config cancel_first [''a'', '' '', ''b''] = 1" by code_simp
  from batch_record_count [OF a b c, of breadcrumb_env no_stats] a b c d e
  show ?thesis by simp
qed

end
